theory Spec2Isabelle
  imports Complex_Main "HOL-Library.AList"
begin

section \<open>Python values that occur as interval bounds\<close>

text \<open>
  The bounds of an \<open>Interval\<close> in \<open>range_analysis.py\<close> are \<open>None\<close>, a Python
  \<open>int\<close> (unbounded) or a Python \<open>float\<close>. \<open>PFloat x\<close> is the finite float (an
  IEEE double) whose value is the real number \<open>x\<close>; the two zeros are one value, since
  no operation below tells them apart. \<open>PInf\<close>, \<open>NInf\<close> and \<open>NaN\<close> are the floats
  \<open>inf\<close>, \<open>-inf\<close> and \<open>nan\<close>. An int and a float of the same value are different
  values (\<open>PInt 3\<close> and \<open>PFloat 3\<close>): they compare equal, and the shifts accept only
  the first.
  A bound is a \<open>pynum option\<close>, \<open>None\<close> being Python's \<open>None\<close>.
  Exceptions are values of \<open>pyerr\<close>; a computation that may raise returns
  \<open>pyerr + 'a\<close> with \<open>Inl\<close> for the exception.
\<close>

datatype pynum = PInt int | PFloat real | PInf | NInf | NaN

datatype pyerr =
    TypeError | ValueError | OverflowError | ZeroDivisionError | AttributeError

type_synonym bound = "pynum option"

text \<open>Python's \<open>==\<close> and \<open><\<close> on numbers: an int and a float are compared by their
  exact values, every comparison with \<open>nan\<close> is false.\<close>

fun py_eq :: "pynum \<Rightarrow> pynum \<Rightarrow> bool" where
  "py_eq (PInt a) (PInt b) = (a = b)"
| "py_eq (PInt a) (PFloat y) = (real_of_int a = y)"
| "py_eq (PFloat x) (PInt b) = (x = real_of_int b)"
| "py_eq (PFloat x) (PFloat y) = (x = y)"
| "py_eq PInf PInf = True"
| "py_eq NInf NInf = True"
| "py_eq _ _ = False"

fun py_lt :: "pynum \<Rightarrow> pynum \<Rightarrow> bool" where
  "py_lt (PInt a) (PInt b) = (a < b)"
| "py_lt (PInt a) (PFloat y) = (real_of_int a < y)"
| "py_lt (PFloat x) (PInt b) = (x < real_of_int b)"
| "py_lt (PFloat x) (PFloat y) = (x < y)"
| "py_lt (PInt a) PInf = True"
| "py_lt (PFloat x) PInf = True"
| "py_lt NInf (PInt b) = True"
| "py_lt NInf (PFloat y) = True"
| "py_lt NInf PInf = True"
| "py_lt _ _ = False"

definition py_le :: "pynum \<Rightarrow> pynum \<Rightarrow> bool" where
  "py_le a b = (py_lt a b \<or> py_eq a b)"

definition py_gt :: "pynum \<Rightarrow> pynum \<Rightarrow> bool" where
  "py_gt a b = py_lt b a"

definition py_ge :: "pynum \<Rightarrow> pynum \<Rightarrow> bool" where
  "py_ge a b = py_le b a"

text \<open>The builtins \<open>min(a, b)\<close> and \<open>max(a, b)\<close> keep the first argument unless the
  second is strictly smaller (larger).\<close>

definition py_min :: "pynum \<Rightarrow> pynum \<Rightarrow> pynum" where
  "py_min a b = (if py_lt b a then b else a)"

definition py_max :: "pynum \<Rightarrow> pynum \<Rightarrow> pynum" where
  "py_max a b = (if py_gt b a then b else a)"

section \<open>The class \<open>Interval\<close>\<close>

text \<open>
  \<open>Interval.__init__\<close> stores the two bounds and derives \<open>is_bottom\<close> and
  \<open>is_top\<close> from them; no method assigns to a field afterwards, so both flags are
  functions of the bounds.
\<close>

record interval =
  min_val :: bound
  max_val :: bound

definition Interval :: "bound \<Rightarrow> bound \<Rightarrow> interval" where
  "Interval mn mx = \<lparr>min_val = mn, max_val = mx\<rparr>"

definition is_bottom :: "interval \<Rightarrow> bool" where
  "is_bottom iv = (min_val iv = None \<and> max_val iv = None)"

definition is_top :: "interval \<Rightarrow> bool" where
  "is_top iv = (min_val iv = Some NInf \<and> max_val iv = Some PInf)"

definition join :: "interval \<Rightarrow> interval \<Rightarrow> interval" where
  "join self other =
     (if is_bottom self then other
      else if is_bottom other then self
      else if is_top self \<or> is_top other then Interval (Some NInf) (Some PInf)
      else
        let new_min = (case (min_val self, min_val other) of
                         (Some a, Some b) \<Rightarrow> Some (py_min a b) | _ \<Rightarrow> None);
            new_max = (case (max_val self, max_val other) of
                         (Some a, Some b) \<Rightarrow> Some (py_max a b) | _ \<Rightarrow> None)
        in Interval new_min new_max)"

definition meet :: "interval \<Rightarrow> interval \<Rightarrow> interval" where
  "meet self other =
     (if is_bottom self \<or> is_bottom other then Interval None None
      else if is_top self then other
      else if is_top other then self
      else
        let new_min = (case (min_val self, min_val other) of
                         (Some a, Some b) \<Rightarrow> Some (py_max a b) | _ \<Rightarrow> None);
            new_max = (case (max_val self, max_val other) of
                         (Some a, Some b) \<Rightarrow> Some (py_min a b) | _ \<Rightarrow> None)
        in (case (new_min, new_max) of
              (Some lo, Some hi) \<Rightarrow>
                 if py_gt lo hi then Interval None None else Interval new_min new_max
            | _ \<Rightarrow> Interval new_min new_max))"

definition widen :: "interval \<Rightarrow> interval \<Rightarrow> interval" where
  "widen self other =
     (if is_bottom self then other
      else if is_bottom other then self
      else
        let new_min = (case (min_val other, min_val self) of
                         (Some o_min, Some s_min) \<Rightarrow>
                            if py_lt o_min s_min then Some NInf else min_val self
                       | _ \<Rightarrow> min_val self);
            new_max = (case (max_val other, max_val self) of
                         (Some o_max, Some s_max) \<Rightarrow>
                            if py_gt o_max s_max then Some PInf else max_val self
                       | _ \<Rightarrow> max_val self)
        in Interval new_min new_max)"

definition narrow :: "interval \<Rightarrow> interval \<Rightarrow> interval" where
  "narrow self other =
     (if is_bottom self \<or> is_bottom other then Interval None None
      else
        let new_min = (if min_val self = Some NInf then min_val other else min_val self);
            new_max = (if max_val self = Some PInf then max_val other else max_val self)
        in Interval new_min new_max)"

text \<open>\<open>Interval.__eq__\<close>; \<open>None == None\<close> is true, a number never equals \<open>None\<close>.\<close>

fun bound_eq :: "bound \<Rightarrow> bound \<Rightarrow> bool" where
  "bound_eq None None = True"
| "bound_eq (Some a) (Some b) = py_eq a b"
| "bound_eq _ _ = False"

definition interval_eq :: "interval \<Rightarrow> interval \<Rightarrow> bool" where
  "interval_eq self other =
     ((is_bottom self \<and> is_bottom other) \<or> (is_top self \<and> is_top other) \<or>
      (bound_eq (min_val self) (min_val other) \<and> bound_eq (max_val self) (max_val other)))"

definition is_subset :: "interval \<Rightarrow> interval \<Rightarrow> bool" where
  "is_subset self other =
     (if is_bottom self then True
      else if is_bottom other then False
      else if is_top other then True
      else if is_top self then False
      else
        let min_cond = (case min_val other of None \<Rightarrow> True
                        | Some o_min \<Rightarrow> (case min_val self of None \<Rightarrow> False
                                         | Some s_min \<Rightarrow> py_ge s_min o_min));
            max_cond = (case max_val other of None \<Rightarrow> True
                        | Some o_max \<Rightarrow> (case max_val self of None \<Rightarrow> False
                                         | Some s_max \<Rightarrow> py_le s_max o_max))
        in min_cond \<and> max_cond)"

text \<open>
  The set of integers an interval stands for, as the docstring of \<open>__init__\<close> gives it:
  the empty interval (both bounds \<open>None\<close>) holds no value; otherwise a bound that is
  \<open>None\<close> is no constraint, and any other bound is compared with Python's \<open><=\<close>.
\<close>

definition contains :: "interval \<Rightarrow> int \<Rightarrow> bool" where
  "contains iv v =
     (\<not> is_bottom iv \<and>
      (case min_val iv of None \<Rightarrow> True | Some lo \<Rightarrow> py_le lo (PInt v)) \<and>
      (case max_val iv of None \<Rightarrow> True | Some hi \<Rightarrow> py_le (PInt v) hi))"

section \<open>Python arithmetic on bounds\<close>

text \<open>
  Binding for computations that may raise: the first exception wins.
\<close>

definition err_bind :: "pyerr + 'a \<Rightarrow> ('a \<Rightarrow> pyerr + 'b) \<Rightarrow> pyerr + 'b" where
  "err_bind m f = (case m of Inl e \<Rightarrow> Inl e | Inr x \<Rightarrow> f x)"

text \<open>
  Floats are IEEE doubles: the exact result of an operation is rounded to the nearest
  double, ties to the even mantissa. \<open>nearest_double x\<close> is that double for a real
  \<open>x\<close>, with 53 bits of mantissa and the exponent bounded below (subnormal numbers)
  but not above; \<open>round_double\<close> gives the infinity of the sign when the rounded value
  is beyond the largest double.
\<close>

definition round_half_even :: "real \<Rightarrow> int" where
  "round_half_even x =
     (let f = \<lfloor>x\<rfloor>; d = x - real_of_int f in
      if d < 1 / 2 then f else if d > 1 / 2 then f + 1 else if even f then f else f + 1)"

definition nearest_double :: "real \<Rightarrow> real" where
  "nearest_double x =
     (if x = 0 then 0
      else
        let e = max \<lfloor>log 2 \<bar>x\<bar>\<rfloor> (- 1022);
            ulp = 2 powr real_of_int (e - 52)
        in real_of_int (round_half_even (x / ulp)) * ulp)"

definition round_double :: "real \<Rightarrow> pynum" where
  "round_double x =
     (let y = nearest_double x in
      if \<bar>y\<bar> \<ge> 2 ^ 1024 then (if y > 0 then PInf else NInf) else PFloat y)"

text \<open>
  An arithmetic operation between an int and a float first converts the int to a float,
  which raises \<open>OverflowError\<close> when the int rounds to a value beyond the largest
  double, that is from \<open>2^1024 - 2^970\<close> on. Comparisons never convert.
\<close>

definition float_ok :: "int \<Rightarrow> bool" where
  "float_ok n = (\<bar>n\<bar> < 2 ^ 1024 - 2 ^ 970)"

fun to_float :: "pynum \<Rightarrow> pyerr + pynum" where
  "to_float (PInt a) =
     (if float_ok a then Inr (PFloat (nearest_double (real_of_int a))) else Inl OverflowError)"
| "to_float f = Inr f"

fun py_neg :: "pynum \<Rightarrow> pynum" where
  "py_neg (PInt a) = PInt (- a)"
| "py_neg (PFloat x) = PFloat (- x)"
| "py_neg PInf = NInf"
| "py_neg NInf = PInf"
| "py_neg NaN = NaN"

fun py_abs :: "pynum \<Rightarrow> pynum" where
  "py_abs (PInt a) = PInt \<bar>a\<bar>"
| "py_abs (PFloat x) = PFloat \<bar>x\<bar>"
| "py_abs PInf = PInf"
| "py_abs NInf = PInf"
| "py_abs NaN = NaN"

text \<open>
  The operations on two floats. They are applied to the results of \<open>to_float\<close>
  only, so the equations for an int operand are never used.
  A sum is \<open>nan\<close> for opposite infinities and when an operand is \<open>nan\<close>; a sum or a
  product of finite floats that is too large is an infinity, without an exception.
\<close>

fun float_add :: "pynum \<Rightarrow> pynum \<Rightarrow> pynum" where
  "float_add (PFloat x) (PFloat y) = round_double (x + y)"
| "float_add NaN _ = NaN"
| "float_add _ NaN = NaN"
| "float_add PInf NInf = NaN"
| "float_add NInf PInf = NaN"
| "float_add PInf _ = PInf"
| "float_add _ PInf = PInf"
| "float_add NInf _ = NInf"
| "float_add _ NInf = NInf"
| "float_add _ _ = NaN"

text \<open>A product with an infinite float: \<open>0 * inf\<close> is \<open>nan\<close>, otherwise the signs
  multiply.\<close>

fun inf_times_sign :: "pynum \<Rightarrow> real \<Rightarrow> pynum" where
  "inf_times_sign NaN _ = NaN"
| "inf_times_sign f a = (if a = 0 then NaN else if a > 0 then f else py_neg f)"

fun float_mul :: "pynum \<Rightarrow> pynum \<Rightarrow> pynum" where
  "float_mul (PFloat x) (PFloat y) = round_double (x * y)"
| "float_mul NaN _ = NaN"
| "float_mul _ NaN = NaN"
| "float_mul (PFloat x) f = inf_times_sign f x"
| "float_mul f (PFloat y) = inf_times_sign f y"
| "float_mul f g = (if f = g then PInf else NInf)"

text \<open>\<open>a + b\<close>, \<open>a - b\<close> and \<open>a * b\<close>: exact on two ints, on floats otherwise.\<close>

fun py_add :: "pynum \<Rightarrow> pynum \<Rightarrow> pyerr + pynum" where
  "py_add (PInt a) (PInt b) = Inr (PInt (a + b))"
| "py_add a b = err_bind (to_float a) (\<lambda>x. err_bind (to_float b) (\<lambda>y. Inr (float_add x y)))"

definition py_sub :: "pynum \<Rightarrow> pynum \<Rightarrow> pyerr + pynum" where
  "py_sub a b = py_add a (py_neg b)"

fun py_mul :: "pynum \<Rightarrow> pynum \<Rightarrow> pyerr + pynum" where
  "py_mul (PInt a) (PInt b) = Inr (PInt (a * b))"
| "py_mul a b = err_bind (to_float a) (\<lambda>x. err_bind (to_float b) (\<lambda>y. Inr (float_mul x y)))"

text \<open>
  Floor division \<open>a // b\<close>. On ints it is HOL's \<open>div\<close> (both round towards minus
  infinity) and raises on a zero divisor. With a float operand both are converted and
  the quotient is computed as CPython's \<open>float_floor_div\<close> does: a zero divisor raises;
  the remainder \<open>mod\<close> of C's \<open>fmod\<close> is exact and has the sign of the dividend;
  \<open>(a - mod) / b\<close> is rounded, lowered by one when remainder and divisor differ in
  sign, and then snapped to the nearest whole number. The result is \<open>nan\<close> when the
  dividend is infinite or an operand is \<open>nan\<close>, and \<open>0.0\<close> or \<open>-1.0\<close> for a finite
  dividend and an infinite divisor.
\<close>

definition py_trunc :: "real \<Rightarrow> int" where
  "py_trunc x = (if x \<ge> 0 then \<lfloor>x\<rfloor> else \<lceil>x\<rceil>)"

definition finite_floordiv :: "real \<Rightarrow> real \<Rightarrow> pynum" where
  "finite_floordiv a b =
     (let md = a - b * real_of_int (py_trunc (a / b));
          div0 = round_double (nearest_double (a - md) / b);
          div1 = (if md \<noteq> 0 \<and> ((b < 0) \<noteq> (md < 0)) then float_add div0 (PFloat (- 1)) else div0)
      in case div1 of
           PFloat d \<Rightarrow>
             if d \<noteq> 0
             then (let f = real_of_int \<lfloor>d\<rfloor> in PFloat (if d - f > 1 / 2 then f + 1 else f))
             else PFloat 0
         | other \<Rightarrow> other)"

definition float_floordiv :: "pynum \<Rightarrow> pynum \<Rightarrow> pyerr + pynum" where
  "float_floordiv x y =
     (if y = PFloat 0 then Inl ZeroDivisionError
      else Inr (case (x, y) of
                  (PFloat a, PFloat b) \<Rightarrow> finite_floordiv a b
                | (PFloat a, PInf) \<Rightarrow> PFloat (if a < 0 then - 1 else 0)
                | (PFloat a, NInf) \<Rightarrow> PFloat (if a > 0 then - 1 else 0)
                | _ \<Rightarrow> NaN))"

fun py_floordiv :: "pynum \<Rightarrow> pynum \<Rightarrow> pyerr + pynum" where
  "py_floordiv (PInt a) (PInt b) =
     (if b = 0 then Inl ZeroDivisionError else Inr (PInt (a div b)))"
| "py_floordiv a b = err_bind (to_float a) (\<lambda>x. err_bind (to_float b) (float_floordiv x))"

text \<open>
  Shifts are defined on ints only: a float operand raises \<open>TypeError\<close>, a negative
  count \<open>ValueError\<close>. Python's \<open>>>\<close> on a negative int is the arithmetic shift,
  that is floor division by the power of two. Running out of memory on an astronomically
  large result is not part of the model.
\<close>

fun py_rshift :: "pynum \<Rightarrow> pynum \<Rightarrow> pyerr + pynum" where
  "py_rshift (PInt a) (PInt b) =
     (if b < 0 then Inl ValueError else Inr (PInt (a div 2 ^ nat b)))"
| "py_rshift _ _ = Inl TypeError"

fun py_lshift :: "pynum \<Rightarrow> pynum \<Rightarrow> pyerr + pynum" where
  "py_lshift (PInt a) (PInt b) =
     (if b < 0 then Inl ValueError else Inr (PInt (a * 2 ^ nat b)))"
| "py_lshift _ _ = Inl TypeError"

text \<open>\<open>int(x)\<close> of a number: a finite float is truncated towards zero, an infinity
  raises \<open>OverflowError\<close>, \<open>nan\<close> raises \<open>ValueError\<close>.\<close>

fun py_int :: "pynum \<Rightarrow> pyerr + pynum" where
  "py_int (PInt a) = Inr (PInt a)"
| "py_int (PFloat x) = Inr (PInt (py_trunc x))"
| "py_int NaN = Inl ValueError"
| "py_int _ = Inl OverflowError"

text \<open>
  The power \<open>a ** b\<close>, which the program applies to a base that is not negative and to
  finite operands only. On two ints with \<open>b \<ge> 0\<close> it is exact. Otherwise both
  operands are converted and the power of the floats is taken: \<open>0.0\<close> to a negative
  power raises \<open>ZeroDivisionError\<close>, a result beyond the largest double raises
  \<open>OverflowError\<close>. The power of two floats is the one of the C library; it is taken
  to be correctly rounded.
\<close>

definition float_pow :: "real \<Rightarrow> real \<Rightarrow> pyerr + pynum" where
  "float_pow x y =
     (if x = 0 then
        (if y = 0 then Inr (PFloat 1)
         else if y > 0 then Inr (PFloat 0) else Inl ZeroDivisionError)
      else (case round_double (x powr y) of
              PFloat p \<Rightarrow> Inr (PFloat p)
            | _ \<Rightarrow> Inl OverflowError))"

definition float_pow_of :: "pynum \<Rightarrow> pynum \<Rightarrow> pyerr + pynum" where
  "float_pow_of a b =
     err_bind (to_float a) (\<lambda>x. err_bind (to_float b) (\<lambda>y.
       case (x, y) of
         (PFloat u, PFloat v) \<Rightarrow> float_pow u v
       | _ \<Rightarrow> Inr NaN))"

fun py_pow :: "pynum \<Rightarrow> pynum \<Rightarrow> pyerr + pynum" where
  "py_pow (PInt a) (PInt b) =
     (if b \<ge> 0 then Inr (PInt (a ^ nat b)) else float_pow_of (PInt a) (PInt b))"
| "py_pow a b = float_pow_of a b"

text \<open>\<open>2 ** e\<close> for any exponent: \<open>2 ** inf\<close> is \<open>inf\<close>, \<open>2 ** -inf\<close> is \<open>0.0\<close> and
  \<open>2 ** nan\<close> is \<open>nan\<close>.\<close>

fun two_pow :: "pynum \<Rightarrow> pyerr + pynum" where
  "two_pow PInf = Inr PInf"
| "two_pow NInf = Inr (PFloat 0)"
| "two_pow NaN = Inr NaN"
| "two_pow e = py_pow (PInt 2) e"

text \<open>\<open>r % 2\<close> for a finite \<open>r\<close>: the remainder has the sign of the divisor.\<close>

fun py_mod_two :: "pynum \<Rightarrow> pynum" where
  "py_mod_two (PInt r) = PInt (r mod 2)"
| "py_mod_two (PFloat y) = PFloat (y - 2 * real_of_int \<lfloor>y / 2\<rfloor>)"
| "py_mod_two _ = NaN"

text \<open>\<open>min(xs)\<close> and \<open>max(xs)\<close> of a non-empty list keep the first extremal element.\<close>

definition py_min_list :: "pynum list \<Rightarrow> pynum" where
  "py_min_list xs = foldl py_min (hd xs) (tl xs)"

definition py_max_list :: "pynum list \<Rightarrow> pynum" where
  "py_max_list xs = foldl py_max (hd xs) (tl xs)"

section \<open>Strings\<close>

text \<open>
  Strings are byte lists; \<open>lower\<close>, \<open>isdigit\<close> and the parsers below are Python's
  on ASCII text.
\<close>

text \<open>An upper-case letter (codes 65 to 90) becomes lower case by adding 32, that is by
  setting bit 5.\<close>

definition lower_char :: "char \<Rightarrow> char" where
  "lower_char c =
     (let n = (of_char c :: nat) in
      if 65 \<le> n \<and> n \<le> 90
      then Char (digit0 c) (digit1 c) (digit2 c) (digit3 c) (digit4 c) True (digit6 c) (digit7 c)
      else c)"

definition lower :: "string \<Rightarrow> string" where
  "lower s = map lower_char s"

fun startswith :: "string \<Rightarrow> string \<Rightarrow> bool" where
  "startswith s [] = True"
| "startswith [] (p # ps) = False"
| "startswith (c # cs) (p # ps) = (c = p \<and> startswith cs ps)"

text \<open>\<open>str_in p s\<close> is Python's \<open>p in s\<close> on strings.\<close>

fun str_in :: "string \<Rightarrow> string \<Rightarrow> bool" where
  "str_in p [] = (p = [])"
| "str_in p (c # cs) = (startswith (c # cs) p \<or> str_in p cs)"

definition is_digit_char :: "char \<Rightarrow> bool" where
  "is_digit_char c = (let n = (of_char c :: nat) in 48 \<le> n \<and> n \<le> 57)"

definition isdigit :: "string \<Rightarrow> bool" where
  "isdigit s = (s \<noteq> [] \<and> list_all is_digit_char s)"

definition is_space_char :: "char \<Rightarrow> bool" where
  "is_space_char c = (let n = (of_char c :: nat) in (9 \<le> n \<and> n \<le> 13) \<or> (28 \<le> n \<and> n \<le> 32))"

definition strip :: "string \<Rightarrow> string" where
  "strip s = rev (dropWhile is_space_char (rev (dropWhile is_space_char s)))"

definition digit_of :: "nat \<Rightarrow> char \<Rightarrow> nat option" where
  "digit_of b c =
     (let n = (of_char c :: nat);
          d = (if 48 \<le> n \<and> n \<le> 57 then Some (n - 48)
               else if 97 \<le> n \<and> n \<le> 122 then Some (n - 87)
               else if 65 \<le> n \<and> n \<le> 90 then Some (n - 55)
               else None)
      in case d of None \<Rightarrow> None | Some v \<Rightarrow> if v < b then Some v else None)"

text \<open>
  The digits of an integer literal in base \<open>b\<close>: single underscores may separate
  digits (\<open>us_ok\<close>: an underscore may come next; \<open>have\<close>: the last character was a
  digit).
\<close>

fun digits_value :: "nat \<Rightarrow> bool \<Rightarrow> bool \<Rightarrow> nat \<Rightarrow> string \<Rightarrow> nat option" where
  "digits_value b us_ok have acc [] = (if have then Some acc else None)"
| "digits_value b us_ok have acc (c # cs) =
     (if c = CHR ''_'' then (if us_ok then digits_value b False False acc cs else None)
      else case digit_of b c of
             None \<Rightarrow> None
           | Some d \<Rightarrow> digits_value b True True (acc * b + d) cs)"

text \<open>
  \<open>int(s)\<close> and \<open>int(s, 16)\<close> on a string; \<open>None\<close> stands for \<open>ValueError\<close>.
  Surrounding whitespace, a sign and, in base 16, the prefix \<open>0x\<close> are accepted.
\<close>

definition signed_digits :: "nat \<Rightarrow> bool \<Rightarrow> string \<Rightarrow> int option" where
  "signed_digits b prefix_ok s =
     (let (neg, r) = (case s of
                        c # cs \<Rightarrow> if c = CHR ''-'' then (True, cs)
                                   else if c = CHR ''+'' then (False, cs) else (False, s)
                      | [] \<Rightarrow> (False, s));
          (after_prefix, body) =
             (if prefix_ok \<and> (startswith r ''0x'' \<or> startswith r ''0X'')
              then (True, drop 2 r) else (False, r))
      in case digits_value b after_prefix False 0 body of
           None \<Rightarrow> None
         | Some n \<Rightarrow> Some (if neg then - int n else int n))"

definition int_of_str :: "string \<Rightarrow> int option" where
  "int_of_str s = signed_digits 10 False (strip s)"

definition int_of_str16 :: "string \<Rightarrow> int option" where
  "int_of_str16 s = signed_digits 16 True (strip s)"

section \<open>Variables of the intermediate representation\<close>

text \<open>
  A variable is an opaque handle of the front end. The analysis reads its printed name
  (\<open>str(variable)\<close>), the printed form of its type when it has a \<open>type\<close> attribute,
  its class, and for a \<open>Constant\<close> its value; \<open>var_id\<close> stands for the identity
  that keys the dictionaries.
\<close>

datatype cvalue = IntVal int | StrVal string | OtherVal

datatype vkind =
    LocalVariable | TemporaryVariable | StateVariable | ReferenceVariable
  | Constant cvalue | OtherVariable

record variable =
  var_id :: nat
  var_name :: string
  var_type :: "string option"
  var_kind :: vkind

section \<open>Recorded issues\<close>

text \<open>
  The analyzer appends formatted messages to \<open>_potential_issues\<close>. Each message is
  a constructor here, carrying the values the f-string interpolates.
\<close>

datatype issue =
    DivZeroRisk interval
  | DivZeroCertain
  | ModZeroRisk interval
  | ModZeroCertain
  | AddOverflow variable interval interval
  | SubUnderflow variable interval interval
  | MulOverflow variable interval interval
  | PowOverflow variable interval interval
  | DivZeroPotential variable variable interval

section \<open>The binary-operation transfer function\<close>

definition int256_min :: int where
  "int256_min = - (2 ^ 255)"

definition uint256_max :: int where
  "uint256_max = 2 ^ 256 - 1"

definition int_interval :: "int \<Rightarrow> int \<Rightarrow> interval" where
  "int_interval a b = Interval (Some (PInt a)) (Some (PInt b))"

definition full_range :: interval where
  "full_range = int_interval int256_min uint256_max"

text \<open>
  A branch of \<open>_apply_binary_operation\<close> either returns an interval at once or
  leaves \<open>new_min\<close> and \<open>new_max\<close> for the common end of the function.
\<close>

datatype outcome = Return interval | Bounds pynum pynum

definition bound_or :: "bound \<Rightarrow> pynum \<Rightarrow> pynum" where
  "bound_or b d = (case b of None \<Rightarrow> d | Some x \<Rightarrow> x)"

text \<open>The clamping tests, with and without the test for an infinite bound.\<close>

definition clamp_min_inf :: "pynum \<Rightarrow> pynum" where
  "clamp_min_inf new_min =
     (if py_eq new_min NInf \<or> py_lt new_min (PInt int256_min) then PInt int256_min else new_min)"

definition clamp_max_inf :: "pynum \<Rightarrow> pynum" where
  "clamp_max_inf new_max =
     (if py_eq new_max PInf \<or> py_ge new_max (PInt (2 ^ 256)) then PInt uint256_max else new_max)"

definition clamp_min :: "pynum \<Rightarrow> pynum" where
  "clamp_min new_min = (if py_lt new_min (PInt int256_min) then PInt int256_min else new_min)"

definition clamp_max :: "pynum \<Rightarrow> pynum" where
  "clamp_max new_max = (if py_ge new_max (PInt (2 ^ 256)) then PInt uint256_max else new_max)"

definition op_add :: "pynum \<Rightarrow> pynum \<Rightarrow> pynum \<Rightarrow> pynum \<Rightarrow> pyerr + outcome" where
  "op_add left_min left_max right_min right_max =
     err_bind (py_add left_min right_min) (\<lambda>new_min.
     err_bind (py_add left_max right_max) (\<lambda>new_max.
     Inr (Bounds (clamp_min_inf new_min) (clamp_max_inf new_max))))"

definition op_sub :: "pynum \<Rightarrow> pynum \<Rightarrow> pynum \<Rightarrow> pynum \<Rightarrow> pyerr + outcome" where
  "op_sub left_min left_max right_min right_max =
     err_bind (py_sub left_min right_max) (\<lambda>new_min.
     err_bind (py_sub left_max right_min) (\<lambda>new_max.
     Inr (Bounds (clamp_min_inf new_min) (clamp_max_inf new_max))))"

definition op_mul :: "pynum \<Rightarrow> pynum \<Rightarrow> pynum \<Rightarrow> pynum \<Rightarrow> pyerr + outcome" where
  "op_mul left_min left_max right_min right_max =
     (if py_eq left_min NInf \<or> py_eq right_min NInf \<or> py_eq left_max PInf \<or> py_eq right_max PInf
      then Inr (Return full_range)
      else
        err_bind (py_mul left_min right_min) (\<lambda>p1.
        err_bind (py_mul left_min right_max) (\<lambda>p2.
        err_bind (py_mul left_max right_min) (\<lambda>p3.
        err_bind (py_mul left_max right_max) (\<lambda>p4.
        let products = [p1, p2, p3, p4];
            new_min = py_min_list products;
            new_max = py_max_list products
        in Inr (Bounds (clamp_min new_min) (clamp_max new_max)))))))"

fun floordiv_all :: "(pynum \<times> pynum) list \<Rightarrow> pyerr + pynum list" where
  "floordiv_all [] = Inr []"
| "floordiv_all ((a, b) # rest) =
     err_bind (py_floordiv a b) (\<lambda>q.
     err_bind (floordiv_all rest) (\<lambda>qs. Inr (q # qs)))"

definition op_div ::
  "interval \<Rightarrow> pynum \<Rightarrow> pynum \<Rightarrow> pynum \<Rightarrow> pynum \<Rightarrow> issue list \<Rightarrow> pyerr + (outcome \<times> issue list)" where
  "op_div right_interval left_min left_max right_min right_max issues =
     (if py_le right_min (PInt 0) \<and> py_ge right_max (PInt 0) then
        (if \<not> (py_eq right_min (PInt 0) \<and> py_eq right_max (PInt 0))
         then Inr (Return full_range, issues @ [DivZeroRisk right_interval])
         else Inr (Return full_range, issues @ [DivZeroCertain]))
      else if py_eq left_min NInf \<or> py_eq right_min NInf \<or> py_eq left_max PInf \<or> py_eq right_max PInf then
        (if (py_gt right_min (PInt 0) \<and> py_ge left_min (PInt 0)) \<or>
            (py_lt right_max (PInt 0) \<and> py_le left_max (PInt 0))
         then Inr (Return (int_interval 0 uint256_max), issues)
         else if (py_gt right_min (PInt 0) \<and> py_le left_max (PInt 0)) \<or>
                 (py_lt right_max (PInt 0) \<and> py_ge left_min (PInt 0))
         then Inr (Return (int_interval int256_min 0), issues)
         else Inr (Return full_range, issues))
      else
        let is_divisor_positive = py_gt right_min (PInt 0);
            is_divisor_negative = py_lt right_max (PInt 0)
        in
        err_bind
          (if is_divisor_positive \<or> is_divisor_negative then
             err_bind
               (if is_divisor_positive
                then floordiv_all [(left_min, right_min), (left_min, right_max),
                                   (left_max, right_min), (left_max, right_max)]
                else floordiv_all [(left_min, right_max), (left_min, right_min),
                                   (left_max, right_max), (left_max, right_min)])
               (\<lambda>qs.
                  Inr (qs @
                    (if py_lt (py_abs right_min) (PInt 2) \<or> py_lt (py_abs right_max) (PInt 2)
                     then (if py_lt left_min (PInt 0) then [PInt int256_min] else []) @
                          (if py_gt left_max (PInt 0) then [PInt uint256_max] else [])
                     else [])))
           else Inr [])
          (\<lambda>quotients.
             if quotients = [] then Inr (Return full_range, issues)
             else Inr (Bounds (py_max (PInt int256_min) (py_min_list quotients))
                              (py_min (PInt uint256_max) (py_max_list quotients)), issues)))"

text \<open>
  In the modulo branch the source also computes \<open>abs_right_max\<close>, which it never
  uses and which cannot raise; it is left out.
\<close>

definition op_mod ::
  "interval \<Rightarrow> pynum \<Rightarrow> pynum \<Rightarrow> pynum \<Rightarrow> pynum \<Rightarrow> issue list \<Rightarrow> pyerr + (outcome \<times> issue list)" where
  "op_mod right_interval left_min left_max right_min right_max issues =
     (if py_le right_min (PInt 0) \<and> py_ge right_max (PInt 0) then
        Inr (Return (int_interval 0 uint256_max),
             issues @ [if \<not> (py_eq right_min (PInt 0) \<and> py_eq right_max (PInt 0))
                       then ModZeroRisk right_interval else ModZeroCertain])
      else if py_gt right_min (PInt 0) then
        err_bind (py_sub right_max (PInt 1)) (\<lambda>rm1.
          if py_ge left_min (PInt 0) then Inr (Bounds (PInt 0) (py_min left_max rm1), issues)
          else if py_lt left_max (PInt 0) then Inr (Bounds (py_max (py_neg rm1) left_min) (PInt 0), issues)
          else Inr (Bounds (py_neg rm1) rm1, issues))
      else if py_lt right_max (PInt 0) then
        let abs_right_min = py_abs right_max in
        if py_ge left_min (PInt 0) then
          err_bind (py_sub abs_right_min (PInt 1)) (\<lambda>am1.
            Inr (Bounds (PInt 0) (py_min left_max am1), issues))
        else if py_lt left_max (PInt 0) then
          err_bind (py_add (py_neg abs_right_min) (PInt 1)) (\<lambda>nm1.
            Inr (Bounds (py_max nm1 left_min) (PInt 0), issues))
        else
          err_bind (py_add (py_neg abs_right_min) (PInt 1)) (\<lambda>nm1.
          err_bind (py_sub abs_right_min (PInt 1)) (\<lambda>am1.
            Inr (Bounds nm1 am1, issues)))
      else Inr (Return (int_interval 0 uint256_max), issues))"

text \<open>
  \<open>try: powers.append(f(int(base ** r))) except (OverflowError, ValueError):
  powers.append(fallback)\<close>: the value that is appended; any other exception leaves
  the function.
\<close>

definition try_power :: "pynum \<Rightarrow> pynum \<Rightarrow> (pynum \<Rightarrow> pynum) \<Rightarrow> pynum \<Rightarrow> pyerr + pynum" where
  "try_power base r f fallback =
     (case err_bind (py_pow base r) py_int of
        Inr p \<Rightarrow> Inr (f p)
      | Inl e \<Rightarrow> if e = OverflowError \<or> e = ValueError then Inr fallback else Inl e)"

text \<open>
  One corner \<open>l ** r\<close> of the power: the list holds what the loop body appends to
  \<open>powers\<close>. For \<open>nan\<close> every test is false.
\<close>

definition pow_corner :: "pynum \<Rightarrow> pynum \<Rightarrow> pyerr + pynum list" where
  "pow_corner l r =
     (if py_ge l (PInt 0) \<and> py_ge r (PInt 0) then
        err_bind (try_power l r (\<lambda>p. p) (PInt uint256_max)) (\<lambda>p. Inr [p])
      else if py_gt l (PInt 0) \<and> py_lt r (PInt 0) then
        Inr [if py_eq l (PInt 1) then PInt 1 else PInt 0]
      else if py_lt l (PInt 0) \<and> py_ge r (PInt 0) \<and> py_eq (py_mod_two r) (PInt 0) then
        err_bind (try_power (py_abs l) r (\<lambda>p. p) (PInt uint256_max)) (\<lambda>p. Inr [p])
      else if py_lt l (PInt 0) \<and> py_ge r (PInt 0) \<and> py_eq (py_mod_two r) (PInt 1) then
        err_bind (try_power (py_abs l) r py_neg (PInt int256_min)) (\<lambda>p. Inr [p])
      else Inr [])"

definition finite_bound :: "pynum \<Rightarrow> bool" where
  "finite_bound x = (\<not> py_eq x NInf \<and> \<not> py_eq x PInf)"

text \<open>The two nested loops over the corners; the body runs only for bounds that are
  not infinite.\<close>

fun pow_corners :: "(pynum \<times> pynum) list \<Rightarrow> pyerr + pynum list" where
  "pow_corners [] = Inr []"
| "pow_corners ((l, r) # rest) =
     err_bind (if finite_bound l \<and> finite_bound r then pow_corner l r else Inr []) (\<lambda>ps.
     err_bind (pow_corners rest) (\<lambda>qs. Inr (ps @ qs)))"

definition op_pow ::
  "interval \<Rightarrow> pynum \<Rightarrow> pynum \<Rightarrow> pynum \<Rightarrow> pynum \<Rightarrow> pyerr + outcome" where
  "op_pow left_interval left_min left_max right_min right_max =
     (if py_eq left_min (PInt 0) \<and> py_eq left_max (PInt 0) then
        (if py_gt right_min (PInt 0) then Inr (Return (int_interval 0 0))
         else if py_eq right_min (PInt 0) \<and> py_eq right_max (PInt 0)
         then Inr (Return (int_interval 1 1))
         else Inr (Return (int_interval 0 uint256_max)))
      else if py_eq left_min (PInt 1) \<and> py_eq left_max (PInt 1) then Inr (Return (int_interval 1 1))
      else if py_eq right_min (PInt 0) \<and> py_eq right_max (PInt 0) then Inr (Return (int_interval 1 1))
      else if py_eq right_min (PInt 1) \<and> py_eq right_max (PInt 1) then Inr (Return left_interval)
      else
        err_bind (pow_corners [(left_min, right_min), (left_min, right_max),
                               (left_max, right_min), (left_max, right_max)]) (\<lambda>powers.
          if powers = [] then Inr (Return full_range)
          else Inr (Bounds (py_max (PInt int256_min) (py_min_list powers))
                           (py_min (PInt uint256_max) (py_max_list powers)))))"

text \<open>
  The test \<open>left_min < -(2**(255 - max_shift))\<close> of the left shift.
\<close>

definition lt_neg_two_pow :: "pynum \<Rightarrow> pynum \<Rightarrow> pyerr + bool" where
  "lt_neg_two_pow x max_shift =
     err_bind (py_sub (PInt 255) max_shift) (\<lambda>e.
     err_bind (two_pow e) (\<lambda>p. Inr (py_lt x (py_neg p))))"

text \<open>\<open>int(right_min) if right_min != float('-inf') else 0\<close>, and its mirror image.\<close>

definition shift_of_min :: "pynum \<Rightarrow> pyerr + pynum" where
  "shift_of_min right_min = (if \<not> py_eq right_min NInf then py_int right_min else Inr (PInt 0))"

definition shift_of_max :: "pynum \<Rightarrow> pyerr + pynum" where
  "shift_of_max right_max = (if \<not> py_eq right_max PInf then py_int right_max else Inr (PInt 256))"

definition op_lshift :: "pynum \<Rightarrow> pynum \<Rightarrow> pynum \<Rightarrow> pynum \<Rightarrow> pyerr + outcome" where
  "op_lshift left_min left_max right_min right_max =
     (if py_lt right_max (PInt 0) then
        err_bind (if \<not> py_eq left_min NInf then py_rshift left_min (py_abs right_max)
                  else Inr (PInt 0)) (\<lambda>new_min.
        err_bind (if \<not> py_eq left_max PInf then py_rshift left_max (py_abs right_min)
                  else Inr (PInt 0)) (\<lambda>new_max.
        Inr (Bounds new_min new_max)))
      else
        let max_shift = (if \<not> py_eq right_max PInf then py_min right_max (PInt 256) else PInt 256) in
        err_bind
          (if py_eq left_min NInf then Inr (PInt int256_min)
           else if py_lt left_min (PInt 0) then
             err_bind (lt_neg_two_pow left_min max_shift) (\<lambda>below.
               if below then Inr (PInt int256_min)
               else err_bind (shift_of_min right_min) (py_lshift left_min))
           else err_bind (shift_of_min right_min) (py_lshift left_min)) (\<lambda>new_min.
        err_bind
          (if py_eq left_max PInf then Inr (PInt uint256_max)
           else if py_gt left_max (PInt 0) \<and> py_gt max_shift (PInt 0) then
             err_bind (py_rshift (PInt uint256_max) max_shift) (\<lambda>limit.
               if py_gt left_max limit then Inr (PInt uint256_max)
               else err_bind (shift_of_min right_min) (py_lshift left_max))
           else err_bind (shift_of_min right_min) (py_lshift left_max)) (\<lambda>new_max.
        Inr (Bounds (clamp_min new_min) (clamp_max new_max)))))"

definition op_rshift :: "pynum \<Rightarrow> pynum \<Rightarrow> pynum \<Rightarrow> pynum \<Rightarrow> pyerr + outcome" where
  "op_rshift left_min left_max right_min right_max =
     (if py_lt right_max (PInt 0) then
        let max_shift = (if \<not> py_eq right_min NInf then py_min (py_abs right_min) (PInt 256)
                         else PInt 256) in
        if py_gt max_shift (PInt 30) then Inr (Bounds (PInt int256_min) (PInt uint256_max))
        else
          err_bind (if \<not> py_eq left_min NInf then py_lshift left_min (py_abs right_max)
                    else Inr (PInt int256_min)) (\<lambda>new_min.
          err_bind (if \<not> py_eq left_max PInf then py_lshift left_max (py_abs right_min)
                    else Inr (PInt uint256_max)) (\<lambda>new_max.
          Inr (Bounds (clamp_min new_min) (clamp_max new_max))))
      else
        err_bind (if py_eq left_min NInf then Inr (PInt int256_min)
                  else err_bind (shift_of_max right_max) (py_rshift left_min)) (\<lambda>new_min.
        err_bind (if py_eq left_max PInf then Inr (PInt uint256_max)
                  else err_bind (shift_of_min right_min) (py_rshift left_max)) (\<lambda>new_max.
        Inr (Bounds new_min new_max))))"

text \<open>
  The end of \<open>_apply_binary_operation\<close>: an infinite bound that a branch left is
  replaced by the machine bound, and the interval is built.
\<close>

definition finish :: "outcome \<Rightarrow> interval" where
  "finish out =
     (case out of
        Return iv \<Rightarrow> iv
      | Bounds new_min new_max \<Rightarrow>
          Interval (Some (if py_eq new_min NInf then PInt int256_min else new_min))
                   (Some (if py_eq new_max PInf then PInt uint256_max else new_max)))"

text \<open>
  \<open>_apply_binary_operation(op_type, left_interval, right_interval)\<close>. The list of
  recorded issues is passed in and returned, since the division and modulo branches
  append to \<open>self._potential_issues\<close>.
\<close>

definition apply_binary_operation ::
  "string \<Rightarrow> interval \<Rightarrow> interval \<Rightarrow> issue list \<Rightarrow> pyerr + (interval \<times> issue list)" where
  "apply_binary_operation op_type left_interval right_interval issues =
     (if is_bottom left_interval \<or> is_bottom right_interval then Inr (Interval None None, issues)
      else if is_top left_interval \<or> is_top right_interval then
        (if op_type \<in> set [''/'', ''%''] \<and> is_top right_interval
         then Inr (int_interval 0 uint256_max, issues)
         else Inr (Interval (Some NInf) (Some PInf), issues))
      else
        let left_min = bound_or (min_val left_interval) NInf;
            left_max = bound_or (max_val left_interval) PInf;
            right_min = bound_or (min_val right_interval) NInf;
            right_max = bound_or (max_val right_interval) PInf
        in
        if op_type = ''+'' then
          err_bind (op_add left_min left_max right_min right_max) (\<lambda>out. Inr (finish out, issues))
        else if op_type = ''-'' then
          err_bind (op_sub left_min left_max right_min right_max) (\<lambda>out. Inr (finish out, issues))
        else if op_type = ''*'' then
          err_bind (op_mul left_min left_max right_min right_max) (\<lambda>out. Inr (finish out, issues))
        else if op_type = ''/'' then
          err_bind (op_div right_interval left_min left_max right_min right_max issues)
            (\<lambda>(out, issues'). Inr (finish out, issues'))
        else if op_type = ''%'' then
          err_bind (op_mod right_interval left_min left_max right_min right_max issues)
            (\<lambda>(out, issues'). Inr (finish out, issues'))
        else if op_type = ''**'' then
          err_bind (op_pow left_interval left_min left_max right_min right_max)
            (\<lambda>out. Inr (finish out, issues))
        else if op_type \<in> set [''<'', ''<='', ''>'', ''>='', ''=='', ''!=''] then
          Inr (int_interval 0 1, issues)
        else if op_type \<in> set [''&&'', ''||'', ''and'', ''or''] then
          Inr (int_interval 0 1, issues)
        else if op_type \<in> set [''<<'', ''>>''] then
          (if op_type = ''<<''
           then err_bind (op_lshift left_min left_max right_min right_max) (\<lambda>out. Inr (finish out, issues))
           else err_bind (op_rshift left_min left_max right_min right_max) (\<lambda>out. Inr (finish out, issues)))
        else Inr (full_range, issues))"

section \<open>The analyzer state\<close>

text \<open>
  The fields of \<open>DeFiRangeAnalyzer\<close> that the analysis mutates. \<open>_tracked_vars\<close>
  is a dictionary; it is an association list in insertion order, since the analysis
  iterates over it. \<open>_safemath_processed\<close> is created on first use, and an absent set
  is tested like an empty one.
\<close>

record func_summary =
  sum_params :: "(variable \<times> interval) list"
  sum_returns :: "(variable \<times> interval) list"

record analyzer =
  tracked_vars :: "(variable \<times> interval) list"
  function_summaries :: "(nat \<times> func_summary) list"
  potential_issues :: "issue list"
  safemath_processed :: "variable set"

definition tracked :: "analyzer \<Rightarrow> variable \<Rightarrow> bool" where
  "tracked s v = (v \<in> fst ` set (tracked_vars s))"

definition get_var :: "analyzer \<Rightarrow> variable \<Rightarrow> interval \<Rightarrow> interval" where
  "get_var s v d = (case map_of (tracked_vars s) v of None \<Rightarrow> d | Some iv \<Rightarrow> iv)"

definition set_var :: "variable \<Rightarrow> interval \<Rightarrow> analyzer \<Rightarrow> analyzer" where
  "set_var v iv s = s\<lparr>tracked_vars := AList.update v iv (tracked_vars s)\<rparr>"

definition add_issue :: "issue \<Rightarrow> analyzer \<Rightarrow> analyzer" where
  "add_issue i s = s\<lparr>potential_issues := potential_issues s @ [i]\<rparr>"

text \<open>\<open>hasattr(v, "type") and p in str(v.type).lower()\<close>.\<close>

definition type_has :: "string \<Rightarrow> variable \<Rightarrow> bool" where
  "type_has p v = (case var_type v of None \<Rightarrow> False | Some t \<Rightarrow> str_in p (lower t))"

section \<open>Checks made on a binary operation\<close>

definition overflow_issue ::
  "string \<Rightarrow> interval \<Rightarrow> interval \<Rightarrow> variable \<Rightarrow> pyerr + issue option" where
  "overflow_issue op_type left_interval right_interval result_var =
     (if op_type = ''+'' then
        (case (max_val left_interval, max_val right_interval) of
           (Some a, Some b) \<Rightarrow>
              err_bind (py_add a b) (\<lambda>t.
                Inr (if py_ge t (PInt (2 ^ 256))
                     then Some (AddOverflow result_var left_interval right_interval) else None))
         | _ \<Rightarrow> Inr None)
      else if op_type = ''-'' then
        (case (min_val left_interval, max_val right_interval) of
           (Some a, Some b) \<Rightarrow>
              Inr (if py_lt a b \<and> type_has ''uint'' result_var
                   then Some (SubUnderflow result_var left_interval right_interval) else None)
         | _ \<Rightarrow> Inr None)
      else if op_type = ''*'' then
        (case (max_val left_interval, max_val right_interval) of
           (Some a, Some b) \<Rightarrow>
              err_bind (py_mul a b) (\<lambda>t.
                Inr (if py_ge t (PInt (2 ^ 256))
                     then Some (MulOverflow result_var left_interval right_interval) else None))
         | _ \<Rightarrow> Inr None)
      else if op_type = ''**'' then
        (case (max_val left_interval, max_val right_interval) of
           (Some a, Some b) \<Rightarrow>
              Inr (if py_gt a (PInt 1) \<and> py_gt b (PInt 1) \<and> py_gt b (PInt 32)
                   then Some (PowOverflow result_var left_interval right_interval) else None)
         | _ \<Rightarrow> Inr None)
      else Inr None)"

definition check_overflow_underflow ::
  "string \<Rightarrow> interval \<Rightarrow> interval \<Rightarrow> variable \<Rightarrow> analyzer \<Rightarrow> pyerr + analyzer" where
  "check_overflow_underflow op_type left_interval right_interval result_var s =
     (if result_var \<in> safemath_processed s then Inr s
      else
        err_bind (overflow_issue op_type left_interval right_interval result_var) (\<lambda>issue.
          case issue of None \<Rightarrow> Inr s | Some i \<Rightarrow> Inr (add_issue i s)))"

definition check_division_by_zero ::
  "interval \<Rightarrow> variable \<Rightarrow> variable \<Rightarrow> analyzer \<Rightarrow> analyzer" where
  "check_division_by_zero right_interval result_var left_var s =
     (case (min_val right_interval, max_val right_interval) of
        (Some lo, Some hi) \<Rightarrow>
           if py_le lo (PInt 0) \<and> py_ge hi (PInt 0)
           then add_issue (DivZeroPotential result_var left_var right_interval) s else s
      | _ \<Rightarrow> s)"

section \<open>The handler of binary operations\<close>

text \<open>
  A constant operand that is not tracked becomes a point interval when its value is an
  int, a string of digits, or a string starting with \<open>0x\<close> that parses in base 16.
\<close>

definition constant_operand :: "variable \<Rightarrow> interval option" where
  "constant_operand v =
     (case var_kind v of
        Constant (IntVal n) \<Rightarrow> Some (int_interval n n)
      | Constant (StrVal str) \<Rightarrow>
          if isdigit str then map_option (\<lambda>n. int_interval n n) (int_of_str str)
          else if startswith str ''0x'' then map_option (\<lambda>n. int_interval n n) (int_of_str16 str)
          else None
      | _ \<Rightarrow> None)"

definition is_constant :: "variable \<Rightarrow> bool" where
  "is_constant v = (case var_kind v of Constant c \<Rightarrow> True | _ \<Rightarrow> False)"

definition operand_interval :: "analyzer \<Rightarrow> variable \<Rightarrow> interval" where
  "operand_interval s v =
     (let iv = get_var s v (Interval None None) in
      if is_constant v \<and> \<not> tracked s v
      then (case constant_operand v of None \<Rightarrow> iv | Some c \<Rightarrow> c)
      else iv)"

definition handle_binary_op ::
  "string \<Rightarrow> variable \<Rightarrow> variable \<Rightarrow> variable \<Rightarrow> analyzer \<Rightarrow> pyerr + analyzer" where
  "handle_binary_op op_type result_var left right s =
     (let right_interval = operand_interval s right;
          left_interval = operand_interval s left
      in
      err_bind (apply_binary_operation op_type left_interval right_interval (potential_issues s))
        (\<lambda>(result_interval, issues).
           let s1 = set_var result_var result_interval (s\<lparr>potential_issues := issues\<rparr>) in
           err_bind (if op_type \<in> set [''+'', ''-'', ''*'', ''**'']
                     then check_overflow_underflow op_type left_interval right_interval result_var s1
                     else Inr s1)
             (\<lambda>s2. if op_type \<in> set [''/'', ''%'']
                     then Inr (check_division_by_zero right_interval result_var left s2)
                     else Inr s2)))"

section \<open>Instructions and the other handlers\<close>

text \<open>
  What the handlers read of a callee: its name, the name of its contract and the printed
  form of its return type, each when the attribute exists (and, for the return type, is
  not empty).
\<close>

record callee =
  callee_name :: "string option"
  callee_contract :: "string option"
  callee_return_type :: "string option"

text \<open>
  The instruction classes that \<open>_process_ir\<close> tells apart, with the operands the
  handlers read: \<open>Binary lvalue type_str variable_left variable_right\<close>,
  \<open>Assignment lvalue rvalue\<close>, \<open>TypeConversion lvalue variable\<close>,
  \<open>Member lvalue variable_left variable_right\<close>, \<open>SolidityCall lvalue function
  arguments\<close>, any other instruction with \<open>function\<close>, \<open>lvalue\<close> and
  \<open>arguments\<close> (\<open>Call\<close>), and the rest, with its \<open>lvalue\<close> and its \<open>rvalue\<close>
  if it has them.
\<close>

datatype ir =
    Binary variable string variable variable
  | Assignment variable variable
  | TypeConversion variable variable
  | Member variable variable variable
  | SolidityCall variable callee "variable list"
  | Call variable callee "variable list"
  | OtherIR "variable option" "variable option"

definition handle_assignment :: "variable \<Rightarrow> variable \<Rightarrow> analyzer \<Rightarrow> analyzer" where
  "handle_assignment target rvalue s =
     (case var_kind rvalue of
        Constant (IntVal n) \<Rightarrow> set_var target (int_interval n n) s
      | Constant (StrVal str) \<Rightarrow>
          (case (if isdigit str then int_of_str str
                 else if startswith str ''0x'' then int_of_str16 str else int_of_str str) of
             None \<Rightarrow> s
           | Some n \<Rightarrow> set_var target (int_interval n n) s)
      | Constant OtherVal \<Rightarrow> s
      | _ \<Rightarrow>
          if tracked s rvalue then set_var target (get_var s rvalue (Interval None None)) s
          else if type_has ''address'' rvalue then set_var target (int_interval 0 (2 ^ 160 - 1)) s
          else if type_has ''bool'' rvalue then set_var target (int_interval 0 1) s
          else s)"

text \<open>
  \<open>re.search(p + r"(\d+)", s)\<close> read as a number: the digits after the first
  occurrence of \<open>p\<close> that a digit follows.
\<close>

definition dec_value :: "string \<Rightarrow> nat" where
  "dec_value ds = foldl (\<lambda>acc c. acc * 10 + (of_char c - 48)) 0 ds"

fun search_width :: "string \<Rightarrow> string \<Rightarrow> nat option" where
  "search_width p [] = None"
| "search_width p (c # cs) =
     (let after = drop (length p) (c # cs) in
      if startswith (c # cs) p \<and> (case after of d # ds \<Rightarrow> is_digit_char d | [] \<Rightarrow> False)
      then Some (dec_value (takeWhile is_digit_char after))
      else search_width p cs)"

definition width_of :: "string \<Rightarrow> string \<Rightarrow> nat" where
  "width_of p type_str = (case search_width p type_str of None \<Rightarrow> 256 | Some bits \<Rightarrow> bits)"

text \<open>\<open>2**(bits-1)\<close>: an int for \<open>bits > 0\<close>, the float \<open>0.5\<close> for \<open>bits = 0\<close>
  (a type whose printed form has \<open>int0\<close> in it, such as a struct \<open>Point0\<close>).\<close>

definition half_range :: "nat \<Rightarrow> pyerr + pynum" where
  "half_range bits = py_pow (PInt 2) (PInt (int bits - 1))"

definition handle_type_conversion :: "variable \<Rightarrow> variable \<Rightarrow> analyzer \<Rightarrow> pyerr + analyzer" where
  "handle_type_conversion target source s =
     (case map_of (tracked_vars s) source of
        None \<Rightarrow> Inr s
      | Some current_interval \<Rightarrow>
          (case var_type target of
             None \<Rightarrow> Inr s
           | Some t \<Rightarrow>
               let type_str = lower t in
               if str_in ''uint'' type_str then
                 let bits = width_of ''uint'' type_str;
                     new_min = (case min_val current_interval of
                                  Some lo \<Rightarrow> py_max (PInt 0) lo | None \<Rightarrow> PInt 0);
                     new_max = (case max_val current_interval of
                                  Some hi \<Rightarrow> py_min (PInt (2 ^ bits - 1)) hi
                                | None \<Rightarrow> PInt (2 ^ bits - 1))
                 in Inr (set_var target (Interval (Some new_min) (Some new_max)) s)
               else if str_in ''int'' type_str then
                 err_bind (half_range (width_of ''int'' type_str)) (\<lambda>h.
                 err_bind (py_sub h (PInt 1)) (\<lambda>h1.
                   let new_min = (case min_val current_interval of
                                    Some lo \<Rightarrow> py_max (py_neg h) lo | None \<Rightarrow> py_neg h);
                       new_max = (case max_val current_interval of
                                    Some hi \<Rightarrow> py_min h1 hi | None \<Rightarrow> h1)
                   in Inr (set_var target (Interval (Some new_min) (Some new_max)) s)))
               else if str_in ''address'' type_str then
                 Inr (set_var target (int_interval 0 (2 ^ 160 - 1)) s)
               else if str_in ''bool'' type_str then
                 (if (case min_val current_interval of Some lo \<Rightarrow> py_gt lo (PInt 0) | None \<Rightarrow> False)
                  then Inr (set_var target (int_interval 1 1) s)
                  else if (case max_val current_interval of Some hi \<Rightarrow> py_le hi (PInt 0) | None \<Rightarrow> False)
                  then Inr (set_var target (int_interval 0 0) s)
                  else Inr (set_var target (int_interval 0 1) s))
               else Inr s))"

definition handle_member :: "variable \<Rightarrow> variable \<Rightarrow> variable \<Rightarrow> analyzer \<Rightarrow> analyzer" where
  "handle_member lvalue variable_left variable_right s =
     (let left = lower (var_name variable_left);
          right = lower (var_name variable_right)
      in
      if left = ''msg'' \<and> right = ''value'' then set_var lvalue (int_interval 0 (2 ^ 256 - 1)) s
      else if left = ''block'' \<and> right = ''timestamp'' then set_var lvalue (int_interval 0 4102444800) s
      else if left = ''block'' \<and> right = ''number'' then set_var lvalue (int_interval 0 (2 ^ 64 - 1)) s
      else if left = ''tx'' \<and> right = ''gasprice'' then set_var lvalue (int_interval 0 (10 ^ 18)) s
      else if right = ''balance'' then set_var lvalue (int_interval 0 (2 ^ 256 - 1)) s
      else s)"

text \<open>
  The argument intervals of a library call. For \<open>add\<close> to \<open>mod\<close> an argument that
  is neither tracked nor an int constant ends the handler (\<open>None\<close>); for \<open>min\<close> and
  \<open>max\<close> such an argument is skipped.
\<close>

fun strict_args :: "analyzer \<Rightarrow> variable list \<Rightarrow> interval list option" where
  "strict_args s [] = Some []"
| "strict_args s (arg # args) =
     (if tracked s arg
      then map_option ((#) (get_var s arg (Interval None None))) (strict_args s args)
      else (case var_kind arg of
              Constant (IntVal n) \<Rightarrow> map_option ((#) (int_interval n n)) (strict_args s args)
            | _ \<Rightarrow> None))"

fun lenient_args :: "analyzer \<Rightarrow> variable list \<Rightarrow> interval list" where
  "lenient_args s [] = []"
| "lenient_args s (arg # args) =
     (if tracked s arg then get_var s arg (Interval None None) # lenient_args s args
      else (case var_kind arg of
              Constant (IntVal n) \<Rightarrow> int_interval n n # lenient_args s args
            | _ \<Rightarrow> lenient_args s args))"

text \<open>\<open>min\<close> and \<open>max\<close> of a generator raise \<open>ValueError\<close> when it is empty.\<close>

definition min_of :: "pynum list \<Rightarrow> pyerr + pynum" where
  "min_of xs = (if xs = [] then Inl ValueError else Inr (py_min_list xs))"

definition max_of :: "pynum list \<Rightarrow> pyerr + pynum" where
  "max_of xs = (if xs = [] then Inl ValueError else Inr (py_max_list xs))"

definition present :: "bound list \<Rightarrow> pynum list" where
  "present bs = concat (map (\<lambda>b. case b of None \<Rightarrow> [] | Some x \<Rightarrow> [x]) bs)"

definition handle_solidity_call ::
  "variable \<Rightarrow> callee \<Rightarrow> variable list \<Rightarrow> analyzer \<Rightarrow> pyerr + analyzer" where
  "handle_solidity_call lvalue function arguments s =
     (case callee_name function of
        None \<Rightarrow> Inl AttributeError
      | Some n \<Rightarrow>
          let function_name = lower n;
              is_safemath_call =
                (case callee_contract function of
                   None \<Rightarrow> False
                 | Some c \<Rightarrow> str_in ''safemath'' (lower c) \<or> str_in ''math'' (lower c))
          in
          if function_name \<in> set [''add'', ''sub'', ''mul'', ''div'', ''mod''] then
            (case strict_args s arguments of
               Some (a0 # a1 # others) \<Rightarrow>
                 err_bind (apply_binary_operation function_name a0 a1 (potential_issues s))
                   (\<lambda>(result_interval, issues).
                      let s1 = set_var lvalue result_interval (s\<lparr>potential_issues := issues\<rparr>) in
                      Inr (if is_safemath_call
                           then s1\<lparr>safemath_processed := insert lvalue (safemath_processed s1)\<rparr>
                           else s1))
             | _ \<Rightarrow> Inr s)
          else if function_name = ''min'' then
            (case lenient_args s arguments of
               a0 # a1 # others \<Rightarrow>
                 err_bind (min_of (present (map max_val (a0 # a1 # others)))) (\<lambda>mx.
                   Inr (set_var lvalue (Interval (min_val a0) (Some mx)) s))
             | _ \<Rightarrow> Inr s)
          else if function_name = ''max'' then
            (case lenient_args s arguments of
               a0 # a1 # others \<Rightarrow>
                 err_bind (max_of (present (map max_val (a0 # a1 # others)))) (\<lambda>mx.
                 err_bind (max_of (present (map min_val (a0 # a1 # others)))) (\<lambda>mn.
                   Inr (set_var lvalue (Interval (Some mn) (Some mx)) s)))
             | _ \<Rightarrow> Inr s)
          else Inr s)"

text \<open>\<open>_is_deFi_critical\<close>: a keyword in the printed name, or a type that names a DeFi
  interface, an integer or an address.\<close>

definition critical_patterns :: "string list" where
  "critical_patterns =
     [''balance'', ''price'', ''ratio'', ''debt'', ''supply'', ''reserve'',
      ''liquidity'', ''amount'', ''fee'', ''rate'', ''swap'', ''pool'',
      ''collateral'', ''token'', ''share'', ''yield'', ''reward'',
      ''slippage'', ''impermanent'', ''apy'', ''tvl'', ''borrow'', ''lend'',
      ''stake'', ''unstake'', ''mint'', ''burn'', ''redeem'', ''oracle'',
      ''margin'', ''leverage'', ''flash'', ''loan'', ''liquidat'']"

definition defi_interface_patterns :: "string list" where
  "defi_interface_patterns =
     [''erc20'', ''erc721'', ''erc1155'', ''ierc20'', ''ierc721'', ''ierc1155'',
      ''uniswap'', ''sushiswap'', ''pancakeswap'', ''balancer'', ''curve'',
      ''pair'', ''router'', ''factory'', ''amm'', ''dex'',
      ''compound'', ''aave'', ''makerdao'', ''cream'', ''lending'', ''ctoken'',
      ''vault'', ''pool'', ''strategy'', ''yearn'', ''harvest'',
      ''chainlink'', ''oracle'', ''price'', ''feed'']"

definition is_deFi_critical :: "variable \<Rightarrow> bool" where
  "is_deFi_critical v =
     (if list_ex (\<lambda>p. str_in p (lower (var_name v))) critical_patterns then True
      else (case var_type v of
              None \<Rightarrow> False
            | Some t \<Rightarrow>
                let type_str = lower t in
                if list_ex (\<lambda>p. str_in p type_str) defi_interface_patterns then True
                else if str_in ''uint'' type_str \<or> str_in ''int'' type_str then True
                else if str_in ''address'' type_str then True
                else False))"

definition handle_function_call :: "variable \<Rightarrow> callee \<Rightarrow> analyzer \<Rightarrow> analyzer" where
  "handle_function_call target function s =
     (let function_name = (case callee_name function of None \<Rightarrow> [] | Some n \<Rightarrow> lower n);
          returns_type = (\<lambda>p. case callee_return_type function of
                                 None \<Rightarrow> False | Some t \<Rightarrow> str_in p (lower t))
      in
      if str_in ''balance'' function_name \<or>
         (str_in ''total'' function_name \<and> str_in ''supply'' function_name)
      then set_var target (int_interval 0 (2 ^ 256 - 1)) s
      else if str_in ''price'' function_name \<or> str_in ''rate'' function_name
      then set_var target (int_interval 0 (10 ^ 36)) s
      else if str_in ''allowance'' function_name
      then set_var target (int_interval 0 (2 ^ 256 - 1)) s
      else if str_in ''decimals'' function_name
      then set_var target (int_interval 0 18) s
      else if returns_type ''bool'' then set_var target (int_interval 0 1) s
      else if returns_type ''address'' then set_var target (int_interval 0 (2 ^ 160 - 1)) s
      else if is_deFi_critical target then set_var target (int_interval 0 (2 ^ 256 - 1)) s
      else s)"

definition process_ir :: "ir \<Rightarrow> analyzer \<Rightarrow> pyerr + analyzer" where
  "process_ir i s =
     (case i of
        Binary lvalue type_str variable_left variable_right \<Rightarrow>
          handle_binary_op type_str lvalue variable_left variable_right s
      | Assignment lvalue rvalue \<Rightarrow> Inr (handle_assignment lvalue rvalue s)
      | TypeConversion lvalue source \<Rightarrow> handle_type_conversion lvalue source s
      | Member lvalue variable_left variable_right \<Rightarrow>
          Inr (handle_member lvalue variable_left variable_right s)
      | SolidityCall lvalue function arguments \<Rightarrow>
          handle_solidity_call lvalue function arguments s
      | Call lvalue function arguments \<Rightarrow> Inr (handle_function_call lvalue function s)
      | OtherIR lv rv \<Rightarrow> Inr s)"

section \<open>Condition refinement\<close>

text \<open>
  A node of the control-flow graph: its instructions, its successors (by \<open>node_id\<close>,
  among the nodes of the same function), whether it is a branch, and the operands and
  operator of its condition when \<open>node.expression\<close> is a \<open>Binary\<close>.
\<close>

record node =
  node_id :: nat
  irs :: "ir list"
  sons :: "nat list"
  contains_if :: bool
  expression :: "(variable \<times> string \<times> variable) option"

definition threshold_of :: "cvalue \<Rightarrow> int option" where
  "threshold_of c =
     (case c of
        IntVal n \<Rightarrow> Some n
      | StrVal str \<Rightarrow> if startswith str ''0x'' then int_of_str16 str else int_of_str str
      | OtherVal \<Rightarrow> None)"

text \<open>
  The refinement of \<open>current\<close> by \<open>var op threshold\<close>; \<open>None\<close> for an operator the
  refiner does not know, where it returns without an update.
\<close>

definition refine_constant :: "string \<Rightarrow> interval \<Rightarrow> int \<Rightarrow> interval option" where
  "refine_constant op current threshold =
     (if op = ''<'' then Some (meet current (Interval None (Some (PInt (threshold - 1)))))
      else if op = ''<='' then Some (meet current (Interval None (Some (PInt threshold))))
      else if op = ''>'' then Some (meet current (Interval (Some (PInt (threshold + 1))) None))
      else if op = ''>='' then Some (meet current (Interval (Some (PInt threshold)) None))
      else if op = ''=='' then Some (meet current (Interval (Some (PInt threshold)) (Some (PInt threshold))))
      else if op = ''!='' then
        (if threshold = 0 then
           (case (min_val current, max_val current) of
              (Some lo, Some hi) \<Rightarrow>
                if py_le lo (PInt 0) \<and> py_ge hi (PInt 0) then
                  let neg_interval = (if py_lt lo (PInt 0)
                                      then Some (Interval (Some lo) (Some (PInt (- 1)))) else None);
                      pos_interval = (if py_gt hi (PInt 0)
                                      then Some (Interval (Some (PInt 1)) (Some hi)) else None)
                  in (case (neg_interval, pos_interval) of
                        (Some n, Some p) \<Rightarrow> Some (Interval (min_val n) (max_val p))
                      | (Some n, None) \<Rightarrow> Some n
                      | (None, Some p) \<Rightarrow> Some p
                      | (None, None) \<Rightarrow> Some (Interval None None))
                else Some current
            | _ \<Rightarrow> Some current)
         else Some current)
      else None)"

text \<open>
  The refinement by \<open>left op right\<close> for two tracked variables. Both new intervals
  are computed from the intervals read before the first update.
\<close>

definition refine_variables ::
  "string \<Rightarrow> variable \<Rightarrow> variable \<Rightarrow> interval \<Rightarrow> interval \<Rightarrow> analyzer \<Rightarrow> pyerr + analyzer" where
  "refine_variables op left right left_interval right_interval s =
     (if op = ''<'' then
        err_bind (case max_val right_interval of
                    Some hi \<Rightarrow> err_bind (py_sub hi (PInt 1)) (\<lambda>h.
                                 Inr (set_var left (meet left_interval (Interval None (Some h))) s))
                  | None \<Rightarrow> Inr s) (\<lambda>s1.
        case min_val left_interval of
          Some lo \<Rightarrow> err_bind (py_add lo (PInt 1)) (\<lambda>l.
                       Inr (set_var right (meet right_interval (Interval (Some l) None)) s1))
        | None \<Rightarrow> Inr s1)
      else if op = ''<='' then
        (let s1 = (case max_val right_interval of
                     Some hi \<Rightarrow> set_var left (meet left_interval (Interval None (Some hi))) s
                   | None \<Rightarrow> s)
         in Inr (case min_val left_interval of
                   Some lo \<Rightarrow> set_var right (meet right_interval (Interval (Some lo) None)) s1
                 | None \<Rightarrow> s1))
      else if op = ''>'' then
        err_bind (case min_val right_interval of
                    Some lo \<Rightarrow> err_bind (py_add lo (PInt 1)) (\<lambda>l.
                                 Inr (set_var left (meet left_interval (Interval (Some l) None)) s))
                  | None \<Rightarrow> Inr s) (\<lambda>s1.
        case max_val left_interval of
          Some hi \<Rightarrow> err_bind (py_sub hi (PInt 1)) (\<lambda>h.
                       Inr (set_var right (meet right_interval (Interval None (Some h))) s1))
        | None \<Rightarrow> Inr s1)
      else if op = ''>='' then
        (let s1 = (case min_val right_interval of
                     Some lo \<Rightarrow> set_var left (meet left_interval (Interval (Some lo) None)) s
                   | None \<Rightarrow> s)
         in Inr (case max_val left_interval of
                   Some hi \<Rightarrow> set_var right (meet right_interval (Interval None (Some hi))) s1
                 | None \<Rightarrow> s1))
      else if op = ''=='' then
        (let intersection = meet left_interval right_interval
         in Inr (set_var right intersection (set_var left intersection s)))
      else Inr s)"

definition process_condition :: "node \<Rightarrow> analyzer \<Rightarrow> pyerr + analyzer" where
  "process_condition n s =
     (case expression n of
        None \<Rightarrow> Inr s
      | Some (left, op, right) \<Rightarrow>
          (case var_kind right of
             Constant c \<Rightarrow>
               (case threshold_of c of
                  None \<Rightarrow> Inr s
                | Some threshold \<Rightarrow>
                    (case map_of (tracked_vars s) left of
                       None \<Rightarrow> Inr s
                     | Some current \<Rightarrow>
                         (case refine_constant op current threshold of
                            None \<Rightarrow> Inr s
                          | Some new_interval \<Rightarrow>
                              Inr (if \<not> interval_eq new_interval current
                                   then set_var left new_interval s else s))))
           | _ \<Rightarrow>
               (case (map_of (tracked_vars s) left, map_of (tracked_vars s) right) of
                  (Some left_interval, Some right_interval) \<Rightarrow>
                    refine_variables op left right left_interval right_interval s
                | _ \<Rightarrow> Inr s)))"

section \<open>Snapshots and the test for a changed state\<close>

text \<open>
  \<open>_snapshot_state\<close> returns \<open>copy.deepcopy(self._tracked_vars)\<close>. A deep copy of
  a dictionary copies its keys as well as its values, and the variables are objects that
  are hashed and compared by identity: a key of a snapshot is a new object, different
  from the variable it was copied from and from every other variable of the program.
  A key of a dictionary passed as \<open>old_state\<close> is therefore either a variable itself,
  \<open>Original v\<close> (in a dictionary built by hand), or an object copied from one,
  \<open>Copied v\<close>. A lookup \<open>old_state[var]\<close> or \<open>var in old_state\<close> finds the entry
  of the key \<open>Original var\<close> only. The intervals are copied too; they are immutable, so
  a copy is the same value.
\<close>

datatype snap_key = Original variable | Copied variable

type_synonym snapshot = "(snap_key \<times> interval) list"

definition snapshot_of :: "(variable \<times> interval) list \<Rightarrow> snapshot" where
  "snapshot_of vars = map (\<lambda>(var, iv). (Copied var, iv)) vars"

text \<open>
  \<open>abs(old - new) > threshold\<close> with the default threshold \<open>0.01\<close>, which is the
  double \<open>5764607523034235 / 2^59\<close>.
\<close>

definition default_threshold :: pynum where
  "default_threshold = PFloat (5764607523034235 / 2 ^ 59)"

definition bound_moved :: "bound \<Rightarrow> bound \<Rightarrow> pyerr + bool" where
  "bound_moved old_b new_b =
     (case (old_b, new_b) of
        (Some a, Some b) \<Rightarrow> err_bind (py_sub a b) (\<lambda>d. Inr (py_gt (py_abs d) default_threshold))
      | _ \<Rightarrow> Inr False)"

text \<open>
  \<open>_state_changed(old_state)\<close>: the second argument is \<open>self._tracked_vars\<close>, over
  which the loop runs.
\<close>

fun state_changed :: "snapshot \<Rightarrow> (variable \<times> interval) list \<Rightarrow> pyerr + bool" where
  "state_changed old_state [] = Inr False"
| "state_changed old_state ((var, new_interval) # rest) =
     (case map_of old_state (Original var) of
        None \<Rightarrow> Inr True
      | Some old_interval \<Rightarrow>
          if is_bottom old_interval \<noteq> is_bottom new_interval \<or>
             is_top old_interval \<noteq> is_top new_interval then Inr True
          else
            err_bind (bound_moved (min_val old_interval) (min_val new_interval)) (\<lambda>min_moved.
              if min_moved then Inr True
              else
                err_bind (bound_moved (max_val old_interval) (max_val new_interval)) (\<lambda>max_moved.
                  if max_moved then Inr True
                  else if (min_val old_interval = None) \<noteq> (min_val new_interval = None) then Inr True
                  else if (max_val old_interval = None) \<noteq> (max_val new_interval = None) then Inr True
                  else state_changed old_state rest)))"

section \<open>The bounds check after the analysis\<close>

datatype violation =
    Overflow
  | Underflow
  | MinViolation pynum int
  | MaxViolation pynum int

text \<open>\<open>_load_deFi_constraints\<close>, in the order of the dictionary literal.\<close>

definition deFi_constraints :: "(string \<times> int \<times> int) list" where
  "deFi_constraints =
     [(''token_balance'', 0, 2 ^ 256 - 1),
      (''price_oracle'', 0, 10 ^ 36),
      (''leverage_ratio'', 1, 100),
      (''fee'', 0, 10 ^ 18),
      (''liquidity'', 0, 2 ^ 256 - 1),
      (''time_lock'', 0, 2 ^ 64 - 1),
      (''slippage'', 0, 10 ^ 18),
      (''apy'', 0, 10 ^ 20),
      (''interest_rate'', 0, 10 ^ 20),
      (''collateral_ratio'', 0, 10 ^ 20)]"

fun constraint_violation ::
  "string \<Rightarrow> interval \<Rightarrow> (string \<times> int \<times> int) list \<Rightarrow> violation option" where
  "constraint_violation name current [] = None"
| "constraint_violation name current ((constraint_name, cmin, cmax) # rest) =
     (if str_in constraint_name name then
        (case min_val current of
           Some lo \<Rightarrow>
             if py_lt lo (PInt cmin) then Some (MinViolation lo cmin)
             else (case max_val current of
                     Some hi \<Rightarrow> if py_gt hi (PInt cmax) then Some (MaxViolation hi cmax)
                                 else constraint_violation name current rest
                   | None \<Rightarrow> constraint_violation name current rest)
         | None \<Rightarrow>
             (case max_val current of
                Some hi \<Rightarrow> if py_gt hi (PInt cmax) then Some (MaxViolation hi cmax)
                            else constraint_violation name current rest
              | None \<Rightarrow> constraint_violation name current rest))
      else constraint_violation name current rest)"

definition check_bounds_violation :: "variable \<Rightarrow> analyzer \<Rightarrow> violation option" where
  "check_bounds_violation v s =
     (case map_of (tracked_vars s) v of
        None \<Rightarrow> None
      | Some current \<Rightarrow>
          if is_bottom current then None
          else if (case max_val current of Some hi \<Rightarrow> py_ge hi (PInt (2 ^ 256)) | None \<Rightarrow> False)
          then Some Overflow
          else if (case min_val current of Some lo \<Rightarrow> py_lt lo (PInt 0) | None \<Rightarrow> False)
                  \<and> type_has ''uint'' v
          then Some Underflow
          else constraint_violation (lower (var_name v)) current deFi_constraints)"

section \<open>The worklist driver\<close>

record func =
  func_id :: nat
  func_name :: string
  is_constructor :: bool
  parameters :: "variable list"
  returns :: "variable list"
  nodes :: "node list"

definition widening_threshold :: nat where
  "widening_threshold = 3"

definition narrowing_iterations :: nat where
  "narrowing_iterations = 2"

definition max_iterations :: nat where
  "max_iterations = 20"

definition worklist_batch_size :: nat where
  "worklist_batch_size = 5"

text \<open>The initial interval of a critical parameter, by the printed form of its type.\<close>

definition param_interval :: "variable \<Rightarrow> pyerr + interval" where
  "param_interval p =
     (case var_type p of
        None \<Rightarrow> Inr (int_interval 0 (2 ^ 256 - 1))
      | Some t \<Rightarrow>
          let type_str = lower t in
          if str_in ''uint'' type_str
          then Inr (int_interval 0 (2 ^ width_of ''uint'' type_str - 1))
          else if str_in ''int'' type_str
          then err_bind (half_range (width_of ''int'' type_str)) (\<lambda>h.
               err_bind (py_sub h (PInt 1)) (\<lambda>h1. Inr (Interval (Some (py_neg h)) (Some h1))))
          else if str_in ''address'' type_str then Inr (int_interval 0 (2 ^ 160 - 1))
          else if str_in ''bool'' type_str then Inr (int_interval 0 1)
          else Inr (int_interval 0 (2 ^ 256 - 1)))"

fun seed_params :: "variable list \<Rightarrow> analyzer \<Rightarrow> pyerr + analyzer" where
  "seed_params [] s = Inr s"
| "seed_params (p # ps) s =
     (if is_deFi_critical p
      then err_bind (param_interval p) (\<lambda>iv. seed_params ps (set_var p iv s))
      else seed_params ps s)"

fun ir_lvalue :: "ir \<Rightarrow> variable option" where
  "ir_lvalue (Binary lv t l r) = Some lv"
| "ir_lvalue (Assignment lv rv) = Some lv"
| "ir_lvalue (TypeConversion lv v) = Some lv"
| "ir_lvalue (Member lv l r) = Some lv"
| "ir_lvalue (SolidityCall lv f args) = Some lv"
| "ir_lvalue (Call lv f args) = Some lv"
| "ir_lvalue (OtherIR lv rv) = lv"

fun ir_rvalue :: "ir \<Rightarrow> variable option" where
  "ir_rvalue (Assignment lv rv) = Some rv"
| "ir_rvalue (OtherIR lv rv) = rv"
| "ir_rvalue _ = None"

text \<open>
  The pass over all instructions before the iteration: a critical state variable that
  is read as an \<open>rvalue\<close> and not yet tracked gets the bounds of \<open>uint256\<close> or
  \<open>int256\<close>.
\<close>

fun seed_rvalues :: "ir list \<Rightarrow> analyzer \<Rightarrow> analyzer" where
  "seed_rvalues [] s = s"
| "seed_rvalues (i # rest) s =
     seed_rvalues rest
       (case ir_rvalue i of
          None \<Rightarrow> s
        | Some var \<Rightarrow>
            if \<not> tracked s var \<and> var_kind var = StateVariable \<and> is_deFi_critical var then
              (if type_has ''uint'' var then set_var var (int_interval 0 (2 ^ 256 - 1)) s
               else if type_has ''int'' var then set_var var (int_interval (- (2 ^ 255)) (2 ^ 255 - 1)) s
               else s)
            else s)"

text \<open>
  The local and temporary variables that some instruction assigns. Python collects them
  in two sets and iterates over their union in an order it does not specify; here they
  come in the order of their first assignment, locals first. The interval each one gets
  does not depend on the order.
\<close>

definition assigned_vars :: "vkind \<Rightarrow> ir list \<Rightarrow> variable list" where
  "assigned_vars k instrs =
     remdups (concat (map (\<lambda>i. case ir_lvalue i of
                                  None \<Rightarrow> []
                                | Some v \<Rightarrow> if var_kind v = k then [v] else []) instrs))"

fun seed_locals :: "variable list \<Rightarrow> analyzer \<Rightarrow> analyzer" where
  "seed_locals [] s = s"
| "seed_locals (var # rest) s =
     seed_locals rest
       (if is_deFi_critical var \<and> \<not> tracked s var then
          (case var_type var of
             None \<Rightarrow> set_var var (int_interval 0 (2 ^ 256 - 1)) s
           | Some t \<Rightarrow>
               let type_str = lower t in
               if str_in ''uint'' type_str then set_var var (int_interval 0 (2 ^ 256 - 1)) s
               else if str_in ''int'' type_str
               then set_var var (int_interval (- (2 ^ 255)) (2 ^ 255 - 1)) s
               else if str_in ''bool'' type_str then set_var var (int_interval 0 1) s
               else set_var var (int_interval 0 (2 ^ 256 - 1)) s)
        else s)"

fun process_irs :: "ir list \<Rightarrow> analyzer \<Rightarrow> pyerr + analyzer" where
  "process_irs [] s = Inr s"
| "process_irs (i # rest) s = err_bind (process_ir i s) (process_irs rest)"

text \<open>\<open>self._snapshot_state()\<close>.\<close>

definition snapshot_state :: "analyzer \<Rightarrow> snapshot" where
  "snapshot_state s = snapshot_of (tracked_vars s)"

text \<open>Widening and narrowing of every tracked variable that is found in the old
  state (\<open>if var in old_state\<close>).\<close>

definition widen_state :: "snapshot \<Rightarrow> analyzer \<Rightarrow> analyzer" where
  "widen_state old_state s =
     s\<lparr>tracked_vars :=
          map (\<lambda>(var, iv). case map_of old_state (Original var) of
                              None \<Rightarrow> (var, iv)
                            | Some old \<Rightarrow> (var, widen old iv)) (tracked_vars s)\<rparr>"

definition narrow_state :: "snapshot \<Rightarrow> analyzer \<Rightarrow> analyzer" where
  "narrow_state old_state s =
     s\<lparr>tracked_vars :=
          map (\<lambda>(var, iv). case map_of old_state (Original var) of
                              None \<Rightarrow> (var, iv)
                            | Some old \<Rightarrow> (var, narrow iv old)) (tracked_vars s)\<rparr>"

text \<open>
  The local variables of \<open>_analyze_function_worklist\<close> that the loop updates: the
  analyzer, the queue, the set of processed nodes and the history of snapshots per node.
\<close>

record loop_state =
  ls_analyzer :: analyzer
  ls_worklist :: "node list"
  ls_processed :: "nat set"
  ls_iteration_states :: "(nat \<times> snapshot list) list"

fun append_sons :: "node list \<Rightarrow> nat set \<Rightarrow> nat list \<Rightarrow> node list \<Rightarrow> node list" where
  "append_sons fnodes seen [] wl = wl"
| "append_sons fnodes seen (son # rest) wl =
     append_sons fnodes seen rest
       (if son \<notin> seen \<or> son \<in> node_id ` set wl
        then (case find (\<lambda>n. node_id n = son) fnodes of None \<Rightarrow> wl | Some n \<Rightarrow> wl @ [n])
        else wl)"

definition visit_node :: "func \<Rightarrow> node \<Rightarrow> loop_state \<Rightarrow> pyerr + loop_state" where
  "visit_node f n ls =
     (let s = ls_analyzer ls;
          old_state = snapshot_state s;
          history = (case map_of (ls_iteration_states ls) (node_id n) of
                       None \<Rightarrow> [] | Some h \<Rightarrow> h) @ [old_state]
      in
      err_bind (if contains_if n then process_condition n s else Inr s) (\<lambda>s1.
      err_bind (process_irs (irs n) s1) (\<lambda>s2.
        let should_widen = (length history \<ge> widening_threshold);
            s3 = (if should_widen then widen_state old_state s2 else s2)
        in
        err_bind (state_changed old_state (tracked_vars s3)) (\<lambda>changed.
          Inr \<lparr>ls_analyzer = s3,
               ls_worklist = (if changed
                              then append_sons (nodes f) (ls_processed ls) (sons n) (ls_worklist ls)
                              else ls_worklist ls),
               ls_processed = insert (node_id n) (ls_processed ls),
               ls_iteration_states =
                 AList.update (node_id n) history (ls_iteration_states ls)\<rparr>))))"

fun visit_batch :: "func \<Rightarrow> node list \<Rightarrow> loop_state \<Rightarrow> pyerr + loop_state" where
  "visit_batch f [] ls = Inr ls"
| "visit_batch f (n # rest) ls = err_bind (visit_node f n ls) (visit_batch f rest)"

text \<open>
  The loop \<open>while worklist and iteration < self._max_iterations\<close>; the first argument
  is the number of iterations that remain.
\<close>

fun worklist_loop :: "nat \<Rightarrow> func \<Rightarrow> loop_state \<Rightarrow> pyerr + loop_state" where
  "worklist_loop 0 f ls = Inr ls"
| "worklist_loop (Suc k) f ls =
     (if ls_worklist ls = [] then Inr ls
      else
        let batch_size = min worklist_batch_size (length (ls_worklist ls));
            batch_nodes = take batch_size (ls_worklist ls)
        in err_bind (visit_batch f batch_nodes (ls\<lparr>ls_worklist := drop batch_size (ls_worklist ls)\<rparr>))
             (worklist_loop k f))"

text \<open>
  One narrowing pass over the nodes in order. \<open>old_state\<close> is the last snapshot that
  the iteration stored for the node; the snapshot \<open>current_state\<close> that the source
  takes is never read.
\<close>

fun narrow_pass ::
  "node list \<Rightarrow> (nat \<times> snapshot list) list \<Rightarrow> analyzer \<Rightarrow> pyerr + analyzer" where
  "narrow_pass [] its s = Inr s"
| "narrow_pass (n # rest) its s =
     (case map_of its (node_id n) of
        None \<Rightarrow> narrow_pass rest its s
      | Some h \<Rightarrow>
          if h = [] then narrow_pass rest its s
          else
            let old_state = last h in
            err_bind (if contains_if n then process_condition n s else Inr s) (\<lambda>s1.
            err_bind (process_irs (irs n) s1) (\<lambda>s2.
            narrow_pass rest its (narrow_state old_state s2))))"

fun narrow_passes ::
  "nat \<Rightarrow> node list \<Rightarrow> (nat \<times> snapshot list) list \<Rightarrow> analyzer \<Rightarrow> pyerr + analyzer" where
  "narrow_passes 0 ns its s = Inr s"
| "narrow_passes (Suc k) ns its s = err_bind (narrow_pass ns its s) (narrow_passes k ns its)"

text \<open>The part of \<open>_analyze_function_worklist\<close> after the seeding: the iteration and
  the narrowing.\<close>

definition iterate_and_narrow :: "func \<Rightarrow> analyzer \<Rightarrow> pyerr + analyzer" where
  "iterate_and_narrow f s =
     err_bind (worklist_loop max_iterations f
                 \<lparr>ls_analyzer = s, ls_worklist = nodes f, ls_processed = {},
                  ls_iteration_states = []\<rparr>) (\<lambda>ls.
     narrow_passes narrowing_iterations (nodes f) (ls_iteration_states ls) (ls_analyzer ls))"

definition seed :: "func \<Rightarrow> analyzer \<Rightarrow> pyerr + analyzer" where
  "seed f s =
     err_bind (seed_params (parameters f) (s\<lparr>tracked_vars := []\<rparr>)) (\<lambda>s1.
       let all_irs = concat (map irs (nodes f));
           s2 = seed_rvalues all_irs s1
       in Inr (seed_locals (remdups (assigned_vars LocalVariable all_irs @
                                     assigned_vars TemporaryVariable all_irs)) s2))"

definition analyze_function_worklist :: "func \<Rightarrow> analyzer \<Rightarrow> pyerr + analyzer" where
  "analyze_function_worklist f s =
     err_bind (seed f s) (\<lambda>s3.
     err_bind (iterate_and_narrow f s3) (\<lambda>s4.
     Inr (s4\<lparr>function_summaries :=
               AList.update (func_id f)
                 \<lparr>sum_params = map (\<lambda>p. (p, get_var s4 p (Interval None None))) (parameters f),
                  sum_returns = map (\<lambda>r. (r, get_var s4 r (Interval None None))) (returns f)\<rparr>
                 (function_summaries s4)\<rparr>)))"

section \<open>The entry point\<close>

record contract =
  contract_name :: string
  contract_functions :: "func list"
  inheritance :: "string list"
  state_variables :: "string list"
  is_erc20 :: "bool option"
  is_erc721 :: "bool option"

definition defi_patterns :: "string list" where
  "defi_patterns =
     [''swap'', ''borrow'', ''lend'', ''stake'', ''deposit'', ''withdraw'', ''mint'', ''burn'',
      ''redeem'', ''claim'', ''liquidate'', ''flash'', ''provide'', ''purchase'', ''sell'',
      ''dex'', ''pool'', ''amm'', ''vault'', ''yield'', ''farm'', ''lending'', ''staking'',
      ''oracle'', ''router'', ''factory'', ''exchange'', ''pair'', ''token'', ''erc20'', ''erc721'']"

definition critical_functions :: "string list" where
  "critical_functions =
     [''transfer'', ''approve'', ''transferFrom'', ''balanceOf'', ''totalSupply'', ''allowance'']"

definition is_defi_contract :: "contract \<Rightarrow> bool" where
  "is_defi_contract c =
     (let hit = (\<lambda>name. list_ex (\<lambda>p. str_in p (lower name)) defi_patterns) in
      hit (contract_name c) \<or>
      list_ex (\<lambda>f. hit (func_name f)) (contract_functions c) \<or>
      list_ex hit (inheritance c) \<or>
      list_ex hit (state_variables c) \<or>
      is_erc20 c = Some True \<or>
      is_erc721 c = Some True \<or>
      length (filter (\<lambda>f. func_name f \<in> set critical_functions) (contract_functions c)) \<ge> 3)"

text \<open>An entry of the list that \<open>analyze\<close> returns: a violation with the names of
  contract, function and variable and the interval, or a recorded issue.\<close>

datatype result =
    ViolationResult string string string violation interval
  | IssueResult issue

definition collect_violations :: "string \<Rightarrow> string \<Rightarrow> analyzer \<Rightarrow> result list" where
  "collect_violations cname fname s =
     concat (map (\<lambda>(var, iv). case check_bounds_violation var s of
                                 None \<Rightarrow> []
                               | Some v \<Rightarrow> [ViolationResult cname fname (var_name var) v iv])
                 (tracked_vars s))"

fun analyze_functions ::
  "string \<Rightarrow> func list \<Rightarrow> analyzer \<Rightarrow> result list \<Rightarrow> pyerr + (analyzer \<times> result list)" where
  "analyze_functions cname [] s results = Inr (s, results)"
| "analyze_functions cname (f # rest) s results =
     (if is_constructor f \<or> func_name f = ''slitherConstructorVariables''
      then analyze_functions cname rest s results
      else
        err_bind (analyze_function_worklist f s) (\<lambda>s'.
          analyze_functions cname rest s' (results @ collect_violations cname (func_name f) s')))"

fun analyze_contracts ::
  "contract list \<Rightarrow> analyzer \<Rightarrow> result list \<Rightarrow> pyerr + (analyzer \<times> result list)" where
  "analyze_contracts [] s results = Inr (s, results)"
| "analyze_contracts (c # rest) s results =
     (if \<not> is_defi_contract c then analyze_contracts rest s results
      else
        err_bind (analyze_functions (contract_name c) (contract_functions c) s results) (\<lambda>(s', results').
          analyze_contracts rest s' results'))"

text \<open>
  \<open>DeFiRangeAnalyzer.analyze\<close> on the contracts of the compilation unit
  (\<open>contracts_derived\<close>): it returns the list of results; the analyzer it leaves
  behind is returned with it.
\<close>

definition analyze :: "contract list \<Rightarrow> analyzer \<Rightarrow> pyerr + (analyzer \<times> result list)" where
  "analyze contracts_derived s =
     err_bind (analyze_contracts contracts_derived s []) (\<lambda>(s', results).
       Inr (s', results @ map IssueResult (potential_issues s')))"

text \<open>The analyzer as \<open>__init__\<close> leaves it.\<close>

definition new_analyzer :: analyzer where
  "new_analyzer = \<lparr>tracked_vars = [], function_summaries = [], potential_issues = [],
                   safemath_processed = {}\<rparr>"

section \<open>Notions used to state the properties\<close>



text \<open>
  The invariant of the data model: an interval is bottom, top, or has two integer
  bounds with \<open>min \<le> max\<close>. \<open>widened\<close> is the weaker form that widening keeps: the
  interval is bottom, or its lower bound may be minus infinity and its upper bound plus
  infinity.
\<close>

definition finite_ordered :: "interval \<Rightarrow> bool" where
  "finite_ordered iv =
     (case (min_val iv, max_val iv) of
        (Some (PInt a), Some (PInt b)) \<Rightarrow> a \<le> b
      | _ \<Rightarrow> False)"

definition invariant :: "interval \<Rightarrow> bool" where
  "invariant iv = (is_bottom iv \<or> is_top iv \<or> finite_ordered iv)"

definition widened :: "interval \<Rightarrow> bool" where
  "widened iv =
     (case (min_val iv, max_val iv) of
        (Some (PInt a), Some (PInt b)) \<Rightarrow> a \<le> b
      | (Some NInf, Some (PInt b)) \<Rightarrow> True
      | (Some (PInt a), Some PInf) \<Rightarrow> True
      | (Some NInf, Some PInf) \<Rightarrow> True
      | (None, None) \<Rightarrow> True
      | _ \<Rightarrow> False)"





text \<open>The variables that are tracked.\<close>

definition tracked_keys :: "analyzer \<Rightarrow> variable set" where
  "tracked_keys s = fst ` set (tracked_vars s)"

text \<open>
  The functions that \<open>analyze\<close> analyses, in order, each with the name of its
  contract, and the two nested loops of \<open>analyze\<close> as one pass over this list.
\<close>

definition analysis_targets :: "contract list \<Rightarrow> (string \<times> func) list" where
  "analysis_targets cs =
     concat (map (\<lambda>c. if is_defi_contract c
                       then map (Pair (contract_name c))
                              (filter (\<lambda>f. \<not> (is_constructor f \<or>
                                                func_name f = ''slitherConstructorVariables''))
                                      (contract_functions c))
                       else []) cs)"

fun run_targets ::
  "(string \<times> func) list \<Rightarrow> analyzer \<Rightarrow> result list \<Rightarrow> pyerr + (analyzer \<times> result list)" where
  "run_targets [] s results = Inr (s, results)"
| "run_targets ((cname, f) # rest) s results =
     err_bind (analyze_function_worklist f s) (\<lambda>s'.
       run_targets rest s' (results @ collect_violations cname (func_name f) s'))"

text \<open>Concrete variables and states on which the properties are exercised.\<close>

definition ex_a :: variable where
  "ex_a = \<lparr>var_id = 0, var_name = ''a'', var_type = Some ''uint256'', var_kind = LocalVariable\<rparr>"

definition ex_b :: variable where
  "ex_b = \<lparr>var_id = 1, var_name = ''b'', var_type = Some ''int256'', var_kind = LocalVariable\<rparr>"

definition ex_c :: variable where
  "ex_c = \<lparr>var_id = 2, var_name = ''c'', var_type = Some ''uint256'', var_kind = TemporaryVariable\<rparr>"

definition ex_state :: "interval \<Rightarrow> interval \<Rightarrow> analyzer" where
  "ex_state iv_a iv_b =
     \<lparr>tracked_vars = [(ex_a, iv_a), (ex_b, iv_b)], function_summaries = [],
      potential_issues = [], safemath_processed = {}\<rparr>"

definition ex_balance :: variable where
  "ex_balance = \<lparr>var_id = 3, var_name = ''balance'', var_type = Some ''uint256'',
                  var_kind = StateVariable\<rparr>"

definition ex_amount :: variable where
  "ex_amount = \<lparr>var_id = 4, var_name = ''amount'', var_type = Some ''uint256'',
                 var_kind = LocalVariable\<rparr>"

definition ex_t :: variable where
  "ex_t = \<lparr>var_id = 5, var_name = ''t'', var_type = None, var_kind = TemporaryVariable\<rparr>"

definition ex_five :: variable where
  "ex_five = \<lparr>var_id = 6, var_name = ''5'', var_type = None, var_kind = Constant (IntVal 5)\<rparr>"

definition ex_node :: node where
  "ex_node = \<lparr>node_id = 0, irs = [Assignment ex_t ex_five], sons = [], contains_if = False,
               expression = None\<rparr>"

definition ex_func :: func where
  "ex_func = \<lparr>func_id = 0, func_name = ''set'', is_constructor = False, parameters = [],
               returns = [], nodes = [ex_node]\<rparr>"

definition ex_x :: variable where
  "ex_x = \<lparr>var_id = 7, var_name = ''x'', var_type = Some ''uint256'', var_kind = LocalVariable\<rparr>"

definition ex_y :: variable where
  "ex_y = \<lparr>var_id = 8, var_name = ''y'', var_type = Some ''int8'', var_kind = LocalVariable\<rparr>"

definition ex_z :: variable where
  "ex_z = \<lparr>var_id = 9, var_name = ''z'', var_type = Some ''uint256'', var_kind = TemporaryVariable\<rparr>"

definition ex_shift_node :: node where
  "ex_shift_node = \<lparr>node_id = 0, irs = [Binary ex_z ''<<'' ex_x ex_y], sons = [],
                     contains_if = False, expression = None\<rparr>"

definition ex_shift_func :: func where
  "ex_shift_func = \<lparr>func_id = 1, func_name = ''shift'', is_constructor = False,
                     parameters = [ex_x, ex_y], returns = [], nodes = [ex_shift_node]\<rparr>"

definition ex_pool :: contract where
  "ex_pool = \<lparr>contract_name = ''Pool'', contract_functions = [ex_func, ex_shift_func],
               inheritance = [], state_variables = [], is_erc20 = None, is_erc721 = None\<rparr>"

definition safe_add :: callee where
  "safe_add = \<lparr>callee_name = Some ''add'', callee_contract = Some ''SafeMath'',
                callee_return_type = Some ''uint256''\<rparr>"

definition ex_point :: variable where
  "ex_point = \<lparr>var_id = 10, var_name = ''p'', var_type = Some ''Point0'',
                var_kind = TemporaryVariable\<rparr>"

definition safe_sub :: callee where
  "safe_sub = \<lparr>callee_name = Some ''sub'', callee_contract = Some ''SafeMath'',
                callee_return_type = Some ''uint256''\<rparr>"

definition balance_of :: callee where
  "balance_of = \<lparr>callee_name = Some ''balanceOf'', callee_contract = Some ''Token'',
                  callee_return_type = Some ''uint256''\<rparr>"

text \<open>
  A state in which \<open>balance\<close> and \<open>amount\<close> are tracked with \<open>[0, 2^256 - 1]\<close>, and
  the same state after \<open>balance\<close> has been the target of a call of \<open>SafeMath.sub\<close>
  and of a later call of \<open>balanceOf\<close>.
\<close>

definition ex_ledger :: analyzer where
  "ex_ledger =
     \<lparr>tracked_vars = [(ex_balance, int_interval 0 uint256_max),
                      (ex_amount, int_interval 0 uint256_max)],
      function_summaries = [], potential_issues = [], safemath_processed = {}\<rparr>"

definition ex_marked :: analyzer where
  "ex_marked = ex_ledger\<lparr>safemath_processed := {ex_balance}\<rparr>"

text \<open>
  A function \<open>bump\<close> with a parameter \<open>i\<close> of type \<open>uint8\<close> and a single node
  \<open>i = i + 1\<close> that is its own successor.
\<close>

definition ex_i :: variable where
  "ex_i = \<lparr>var_id = 11, var_name = ''i'', var_type = Some ''uint8'', var_kind = LocalVariable\<rparr>"

definition ex_one :: variable where
  "ex_one = \<lparr>var_id = 12, var_name = ''1'', var_type = None, var_kind = Constant (IntVal 1)\<rparr>"

definition ex_bump_node :: node where
  "ex_bump_node = \<lparr>node_id = 0, irs = [Binary ex_i ''+'' ex_i ex_one], sons = [0],
                    contains_if = False, expression = None\<rparr>"

definition ex_bump :: func where
  "ex_bump = \<lparr>func_id = 2, func_name = ''bump'', is_constructor = False,
               parameters = [ex_i], returns = [], nodes = [ex_bump_node]\<rparr>"

text \<open>
  A function \<open>spin\<close> with the same parameter and instruction, whose node lists
  itself twice as its successor.
\<close>

definition ex_spin_node :: node where
  "ex_spin_node = \<lparr>node_id = 0, irs = [Binary ex_i ''+'' ex_i ex_one], sons = [0, 0],
                    contains_if = False, expression = None\<rparr>"

definition ex_spin :: func where
  "ex_spin = \<lparr>func_id = 3, func_name = ''spin'', is_constructor = False,
               parameters = [ex_i], returns = [], nodes = [ex_spin_node]\<rparr>"

section \<open>Auxiliary facts\<close>

lemmas interval_simps =
  Interval_def int_interval_def is_bottom_def is_top_def full_range_def

lemmas ex_simps =
  ex_a_def ex_b_def ex_c_def ex_state_def ex_balance_def ex_amount_def safe_add_def
  ex_t_def ex_five_def ex_node_def ex_func_def ex_x_def ex_y_def ex_z_def ex_shift_node_def
  ex_shift_func_def ex_pool_def ex_point_def safe_sub_def balance_of_def ex_ledger_def
  ex_marked_def

lemma err_bind_simps [simp]:
  "err_bind (Inr x) f = f x" "err_bind (Inl e) f = Inl e"
  by (simp_all add: err_bind_def)

lemma map_of_set_var [simp]: "map_of (tracked_vars (set_var v iv s)) v = Some iv"
  by (simp add: set_var_def update_conv')

lemma issues_set_var [simp]: "potential_issues (set_var v iv s) = potential_issues s"
  by (simp add: set_var_def)

lemma tracked_add_issue [simp]: "tracked_vars (add_issue i s) = tracked_vars s"
  by (simp add: add_issue_def)

lemma issues_add_issue [simp]: "potential_issues (add_issue i s) = potential_issues s @ [i]"
  by (simp add: add_issue_def)

lemma check_division_by_zero_tracked [simp]:
  "tracked_vars (check_division_by_zero r v l s) = tracked_vars s"
  by (simp add: check_division_by_zero_def split: option.splits)







lemma map_of_tracked: "map_of (tracked_vars s) v = Some iv \<Longrightarrow> tracked s v"
  by (auto simp: tracked_def dest: map_of_SomeD intro: rev_image_eqI)

lemma operand_interval_tracked:
  "map_of (tracked_vars s) v = Some iv \<Longrightarrow> operand_interval s v = iv"
  by (simp add: operand_interval_def get_var_def map_of_tracked)

lemma join_invariant: "invariant a \<Longrightarrow> invariant b \<Longrightarrow> invariant (join a b)"
  by (auto simp: invariant_def finite_ordered_def join_def interval_simps Let_def py_min_def
        py_max_def py_gt_def split: option.splits pynum.splits)

lemma meet_invariant: "invariant a \<Longrightarrow> invariant b \<Longrightarrow> invariant (meet a b)"
  by (auto simp: invariant_def finite_ordered_def meet_def interval_simps Let_def py_min_def
        py_max_def py_gt_def split: option.splits pynum.splits)

lemma narrow_invariant: "invariant a \<Longrightarrow> invariant b \<Longrightarrow> invariant (narrow a b)"
  by (auto simp: invariant_def finite_ordered_def narrow_def interval_simps Let_def
        split: option.splits pynum.splits)

lemma widen_widened: "invariant a \<Longrightarrow> invariant b \<Longrightarrow> widened (widen a b)"
  by (auto simp: invariant_def finite_ordered_def widened_def widen_def interval_simps Let_def
        py_gt_def split: option.splits pynum.splits)

lemma meet_disjoint:
  "max a1 b1 > min a2 b2 \<Longrightarrow> meet (int_interval a1 a2) (int_interval b1 b2) = Interval None None"
  by (auto simp: meet_def interval_simps Let_def py_min_def py_max_def py_gt_def)

lemma round_half_even_of_int [simp]: "round_half_even (real_of_int z) = z"
  by (simp add: round_half_even_def)

lemma two_powr_quot:
  "2 powr real_of_int k / 2 powr real_of_int (k - 52) = real_of_int (2 ^ 52)"
proof -
  have "2 powr real_of_int k / 2 powr real_of_int (k - 52) =
          2 powr (real_of_int k - real_of_int (k - 52))"
    by (simp add: powr_diff)
  also have "\<dots> = 2 powr 52" by simp
  also have "\<dots> = real_of_int (2 ^ 52)" by (simp add: powr_numeral)
  finally show ?thesis .
qed

lemma two_powr_prod:
  "real_of_int (2 ^ 52) * 2 powr real_of_int (k - 52) = 2 powr real_of_int k"
proof -
  have "real_of_int (2 ^ 52) = 2 powr 52" by (simp add: powr_numeral)
  then have "real_of_int (2 ^ 52) * 2 powr real_of_int (k - 52) =
               2 powr (52 + real_of_int (k - 52))"
    by (simp only: powr_add)
  then show ?thesis by simp
qed

lemma nearest_double_pow2:
  assumes "- 1022 \<le> k"
  shows "nearest_double (2 powr real_of_int k) = 2 powr real_of_int k"
proof -
  have lg: "\<lfloor>log 2 \<bar>2 powr real_of_int k\<bar>\<rfloor> = k" by simp
  have e: "max \<lfloor>log 2 \<bar>2 powr real_of_int k\<bar>\<rfloor> (- 1022) = k"
    using assms unfolding lg by simp
  show ?thesis
    unfolding nearest_double_def Let_def e two_powr_quot round_half_even_of_int two_powr_prod
    by simp
qed

lemma nearest_double_neg_pow2:
  assumes "- 1022 \<le> k"
  shows "nearest_double (- (2 powr real_of_int k)) = - (2 powr real_of_int k)"
proof -
  have lg: "\<lfloor>log 2 \<bar>- (2 powr real_of_int k)\<bar>\<rfloor> = k" by simp
  have e: "max \<lfloor>log 2 \<bar>- (2 powr real_of_int k)\<bar>\<rfloor> (- 1022) = k"
    using assms unfolding lg by simp
  have q: "- (2 powr real_of_int k) / 2 powr real_of_int (k - 52) = real_of_int (- (2 ^ 52))"
    using two_powr_quot [of k] by simp
  have p: "real_of_int (- (2 ^ 52)) * 2 powr real_of_int (k - 52) = - (2 powr real_of_int k)"
    using two_powr_prod [of k] by simp
  show ?thesis
    unfolding nearest_double_def Let_def e q round_half_even_of_int p
    by simp
qed

lemma nearest_double_values:
  "nearest_double 1 = 1" "nearest_double 2 = 2" "nearest_double (1 / 2) = 1 / 2"
  "nearest_double (- 1) = - 1" "nearest_double (- (1 / 2)) = - (1 / 2)"
  using nearest_double_pow2 [of 0] nearest_double_pow2 [of 1] nearest_double_pow2 [of "- 1"]
        nearest_double_neg_pow2 [of 0] nearest_double_neg_pow2 [of "- 1"]
  by (simp_all add: powr_minus)

lemma round_double_half:
  "round_double (1 / 2) = PFloat (1 / 2)" "round_double (- (1 / 2)) = PFloat (- (1 / 2))"
  by (simp_all add: round_double_def nearest_double_values)

lemma half_range_zero: "half_range 0 = Inr (PFloat (1 / 2))"
  by (simp add: half_range_def float_pow_of_def float_pow_def float_ok_def
        nearest_double_values round_double_half powr_minus)

lemma half_range_pos: "0 < bits \<Longrightarrow> half_range bits = Inr (PInt (2 ^ (bits - 1)))"
  by (simp add: half_range_def nat_diff_distrib')

lemma half_minus_one: "py_sub (PFloat (1 / 2)) (PInt 1) = Inr (PFloat (- (1 / 2)))"
  by (simp add: py_sub_def float_ok_def nearest_double_values round_double_half)

lemma width_of_point: "width_of ''int'' ''point0'' = 0"
  by (simp add: width_of_def is_digit_char_def dec_value_def)

lemma type_conversion_width_zero:
  "handle_type_conversion ex_point ex_a (ex_state (int_interval 0 10) (int_interval 2 2)) =
     Inr (set_var ex_point (Interval (Some (PInt 0)) (Some (PFloat (- (1 / 2)))))
            (ex_state (int_interval 0 10) (int_interval 2 2)))"
  by (simp add: handle_type_conversion_def width_of_point half_range_zero half_minus_one
        lower_def lower_char_def py_max_def py_min_def py_gt_def Let_def interval_simps ex_simps)

lemma param_interval_width_zero:
  "param_interval ex_point = Inr (Interval (Some (PFloat (- (1 / 2)))) (Some (PFloat (- (1 / 2)))))"
  by (simp add: param_interval_def width_of_point half_range_zero half_minus_one
        lower_def lower_char_def Let_def ex_simps)

lemma map_of_snapshot [simp]: "map_of (snapshot_of vars) (Original v) = None"
  by (auto simp: snapshot_of_def map_of_eq_None_iff)

lemma state_changed_snapshot: "state_changed (snapshot_of pre) post = Inr (post \<noteq> [])"
proof (cases post)
  case Nil
  then show ?thesis by simp
next
  case (Cons p rest)
  then show ?thesis by (cases p) simp
qed

lemma widen_state_snapshot [simp]: "widen_state (snapshot_of pre) s = s"
  by (simp add: widen_state_def case_prod_unfold)

lemma narrow_state_snapshot [simp]: "narrow_state (snapshot_of pre) s = s"
  by (simp add: narrow_state_def case_prod_unfold)

lemma err_bind_Inr: "err_bind m f = Inr y \<Longrightarrow> \<exists>x. m = Inr x \<and> f x = Inr y"
  by (cases m) (simp_all add: err_bind_def)

lemma err_bind_InrE:
  assumes "err_bind m f = Inr y"
  obtains x where "m = Inr x" "f x = Inr y"
  using err_bind_Inr [OF assms] by blast

lemma keys_set_var: "tracked_keys (set_var v iv s) = insert v (tracked_keys s)"
  by (simp add: tracked_keys_def set_var_def dom_update)

lemma keys_issues_update [simp]: "tracked_keys (s\<lparr>potential_issues := x\<rparr>) = tracked_keys s"
  by (simp add: tracked_keys_def)

lemma keys_safemath_update [simp]: "tracked_keys (s\<lparr>safemath_processed := x\<rparr>) = tracked_keys s"
  by (simp add: tracked_keys_def)

lemma keys_add_issue [simp]: "tracked_keys (add_issue i s) = tracked_keys s"
  by (simp add: tracked_keys_def)

lemma keys_check_division [simp]:
  "tracked_keys (check_division_by_zero r v l s) = tracked_keys s"
  by (simp add: tracked_keys_def)

lemma keys_handle_assignment: "tracked_keys s \<subseteq> tracked_keys (handle_assignment t r s)"
  by (auto simp: handle_assignment_def keys_set_var split: vkind.splits cvalue.splits option.splits)

lemma keys_handle_member: "tracked_keys s \<subseteq> tracked_keys (handle_member lv l r s)"
  by (auto simp: handle_member_def Let_def keys_set_var)

lemma keys_handle_function_call: "tracked_keys s \<subseteq> tracked_keys (handle_function_call t f s)"
  by (auto simp: handle_function_call_def Let_def keys_set_var)

lemma keys_handle_type_conversion:
  "handle_type_conversion t src s = Inr s' \<Longrightarrow> tracked_keys s \<subseteq> tracked_keys s'"
  by (auto simp: handle_type_conversion_def Let_def err_bind_def keys_set_var
           split: option.splits if_splits sum.splits)

lemma keys_check_overflow:
  "check_overflow_underflow op l r v s = Inr s' \<Longrightarrow> tracked_keys s' = tracked_keys s"
  by (auto simp: check_overflow_underflow_def err_bind_def split: if_splits sum.splits option.splits)

lemma keys_handle_binary_op:
  assumes "handle_binary_op op v l r s = Inr s'"
  shows "tracked_keys s \<subseteq> tracked_keys s'"
proof -
  define li where "li = operand_interval s l"
  define ri where "ri = operand_interval s r"
  define c1 where "c1 = (op \<in> set [''+'', ''-'', ''*'', ''**''])"
  define c2 where "c2 = (op \<in> set [''/'', ''%''])"
  have h: "handle_binary_op op v l r s =
      err_bind (apply_binary_operation op li ri (potential_issues s))
        (\<lambda>(result_interval, issues).
           err_bind (if c1
                     then check_overflow_underflow op li ri v
                            (set_var v result_interval (s\<lparr>potential_issues := issues\<rparr>))
                     else Inr (set_var v result_interval (s\<lparr>potential_issues := issues\<rparr>)))
             (\<lambda>s2. if c2 then Inr (check_division_by_zero ri v l s2) else Inr s2))"
    unfolding handle_binary_op_def Let_def li_def ri_def c1_def c2_def ..
  show ?thesis
  proof (cases "apply_binary_operation op li ri (potential_issues s)")
    case (Inl e)
    then show ?thesis using assms unfolding h by simp
  next
    case (Inr res)
    obtain iv issues where res: "res = (iv, issues)" by (cases res)
    define s1 where "s1 = set_var v iv (s\<lparr>potential_issues := issues\<rparr>)"
    have k1: "tracked_keys s1 = insert v (tracked_keys s)"
      by (simp add: s1_def keys_set_var)
    have a: "err_bind (if c1 then check_overflow_underflow op li ri v s1 else Inr s1)
               (\<lambda>s2. if c2 then Inr (check_division_by_zero ri v l s2) else Inr s2) = Inr s'"
      using assms unfolding h Inr res s1_def by simp
    show ?thesis
    proof (cases "if c1 then check_overflow_underflow op li ri v s1 else Inr s1")
      case (Inl e)
      then show ?thesis using a by simp
    next
      case (Inr s2)
      have k2: "tracked_keys s2 = tracked_keys s1"
        using Inr keys_check_overflow by (cases c1) auto
      have "(if c2 then Inr (check_division_by_zero ri v l s2) else Inr s2) = (Inr s' :: pyerr + analyzer)"
        using a unfolding Inr by (simp only: err_bind_simps)
      then have k3: "tracked_keys s' = tracked_keys s2"
        by (cases c2) auto
      show ?thesis unfolding k3 k2 k1 by auto
    qed
  qed
qed

lemma keys_apply_install:
  assumes "err_bind (apply_binary_operation fn a0 a1 (potential_issues s))
             (\<lambda>(result_interval, issues).
                let s1 = set_var lv result_interval (s\<lparr>potential_issues := issues\<rparr>) in
                Inr (if c then s1\<lparr>safemath_processed := insert lv (safemath_processed s1)\<rparr> else s1))
           = Inr s'"
  shows "tracked_keys s \<subseteq> tracked_keys s'"
proof (cases "apply_binary_operation fn a0 a1 (potential_issues s)")
  case (Inl e)
  then show ?thesis using assms by simp
next
  case (Inr res)
  then show ?thesis using assms
    by (cases res; cases c) (auto simp: Let_def keys_set_var)
qed

lemma keys_min_install:
  assumes "err_bind m (\<lambda>mx. Inr (set_var lv (Interval lo (Some mx)) s)) = Inr s'"
  shows "tracked_keys s \<subseteq> tracked_keys s'"
  using assms by (cases m) (auto simp: keys_set_var)

lemma keys_max_install:
  assumes "err_bind m (\<lambda>mx. err_bind m2 (\<lambda>mn. Inr (set_var lv (Interval (Some mn) (Some mx)) s))) = Inr s'"
  shows "tracked_keys s \<subseteq> tracked_keys s'"
  using assms by (cases m; cases m2) (auto simp: keys_set_var)

lemma keys_handle_solidity_call:
  assumes "handle_solidity_call lv f args s = Inr s'"
  shows "tracked_keys s \<subseteq> tracked_keys s'"
proof (cases "callee_name f")
  case None
  then show ?thesis using assms by (simp add: handle_solidity_call_def)
next
  case (Some n)
  define fn where "fn = lower n"
  define c where "c = (case callee_contract f of
                   None \<Rightarrow> False
                 | Some c \<Rightarrow> str_in ''safemath'' (lower c) \<or> str_in ''math'' (lower c))"
  define arith where "arith = (fn \<in> set [''add'', ''sub'', ''mul'', ''div'', ''mod''])"
  have h: "handle_solidity_call lv f args s =
          (if arith then
            (case strict_args s args of
               Some (a0 # a1 # others) \<Rightarrow>
                 err_bind (apply_binary_operation fn a0 a1 (potential_issues s))
                   (\<lambda>(result_interval, issues).
                      let s1 = set_var lv result_interval (s\<lparr>potential_issues := issues\<rparr>) in
                      Inr (if c
                           then s1\<lparr>safemath_processed := insert lv (safemath_processed s1)\<rparr>
                           else s1))
             | _ \<Rightarrow> Inr s)
          else if fn = ''min'' then
            (case lenient_args s args of
               a0 # a1 # others \<Rightarrow>
                 err_bind (min_of (present (map max_val (a0 # a1 # others)))) (\<lambda>mx.
                   Inr (set_var lv (Interval (min_val a0) (Some mx)) s))
             | _ \<Rightarrow> Inr s)
          else if fn = ''max'' then
            (case lenient_args s args of
               a0 # a1 # others \<Rightarrow>
                 err_bind (max_of (present (map max_val (a0 # a1 # others)))) (\<lambda>mx.
                 err_bind (max_of (present (map min_val (a0 # a1 # others)))) (\<lambda>mn.
                   Inr (set_var lv (Interval (Some mn) (Some mx)) s)))
             | _ \<Rightarrow> Inr s)
          else Inr s)"
    unfolding handle_solidity_call_def Some option.case Let_def fn_def c_def arith_def ..
  show ?thesis
  proof (cases arith)
    case True
    then show ?thesis using assms [unfolded h]
      by (auto split: option.splits list.splits dest: keys_apply_install)
  next
    case False
    then show ?thesis using assms [unfolded h]
      by (auto split: if_splits list.splits dest: keys_min_install keys_max_install)
  qed
qed

lemma keys_set_var_sub: "tracked_keys s \<subseteq> tracked_keys (set_var v iv s)"
  by (auto simp: keys_set_var)

lemma keys_opt_step:
  assumes "(case b of Some x \<Rightarrow> err_bind (g x) (\<lambda>y. Inr (set_var v (h y) s)) | None \<Rightarrow> Inr s) = Inr s'"
  shows "tracked_keys s \<subseteq> tracked_keys s'"
proof (cases b)
  case None
  then show ?thesis using assms by simp
next
  case (Some x)
  then have "err_bind (g x) (\<lambda>y. Inr (set_var v (h y) s)) = Inr s'" using assms by simp
  from err_bind_Inr [OF this] show ?thesis by (auto simp: keys_set_var)
qed

lemma keys_opt_pure:
  "tracked_keys s \<subseteq> tracked_keys (case b of Some x \<Rightarrow> set_var v (h x) s | None \<Rightarrow> s)"
  by (cases b) (auto simp: keys_set_var)

lemma keys_refine_variables:
  assumes "refine_variables op l r li ri s = Inr s'"
  shows "tracked_keys s \<subseteq> tracked_keys s'"
proof -
  consider (lt) "op = ''<''" | (le) "op \<noteq> ''<''" "op = ''<=''"
    | (gt) "op \<noteq> ''<''" "op \<noteq> ''<=''" "op = ''>''"
    | (ge) "op \<noteq> ''<''" "op \<noteq> ''<=''" "op \<noteq> ''>''" "op = ''>=''"
    | (eq) "op \<noteq> ''<''" "op \<noteq> ''<=''" "op \<noteq> ''>''" "op \<noteq> ''>=''" "op = ''==''"
    | (other) "op \<noteq> ''<''" "op \<noteq> ''<=''" "op \<noteq> ''>''" "op \<noteq> ''>=''" "op \<noteq> ''==''"
    by blast
  then show ?thesis
  proof cases
    case lt
    from assms [unfolded refine_variables_def] lt obtain s1 where
      1: "(case max_val ri of
             Some hi \<Rightarrow> err_bind (py_sub hi (PInt 1)) (\<lambda>h. Inr (set_var l (meet li (Interval None (Some h))) s))
           | None \<Rightarrow> Inr s) = Inr s1" and
      2: "(case min_val li of
             Some lo \<Rightarrow> err_bind (py_add lo (PInt 1)) (\<lambda>x. Inr (set_var r (meet ri (Interval (Some x) None)) s1))
           | None \<Rightarrow> Inr s1) = Inr s'"
      by (auto dest!: err_bind_Inr)
    from keys_opt_step [OF 1] keys_opt_step [OF 2] show ?thesis by blast
  next
    case le
    then have "s' = (case min_val li of
                   Some lo \<Rightarrow> set_var r (meet ri (Interval (Some lo) None))
                     (case max_val ri of
                        Some hi \<Rightarrow> set_var l (meet li (Interval None (Some hi))) s
                      | None \<Rightarrow> s)
                 | None \<Rightarrow> (case max_val ri of
                        Some hi \<Rightarrow> set_var l (meet li (Interval None (Some hi))) s
                      | None \<Rightarrow> s))"
      using assms by (simp add: refine_variables_def Let_def)
    then show ?thesis
      using keys_opt_pure [where s = s and b = "max_val ri" and v = l
                             and h = "\<lambda>hi. meet li (Interval None (Some hi))"]
      by (cases "min_val li") (auto simp: keys_set_var)
  next
    case gt
    from assms [unfolded refine_variables_def] gt obtain s1 where
      1: "(case min_val ri of
             Some lo \<Rightarrow> err_bind (py_add lo (PInt 1)) (\<lambda>x. Inr (set_var l (meet li (Interval (Some x) None)) s))
           | None \<Rightarrow> Inr s) = Inr s1" and
      2: "(case max_val li of
             Some hi \<Rightarrow> err_bind (py_sub hi (PInt 1)) (\<lambda>h. Inr (set_var r (meet ri (Interval None (Some h))) s1))
           | None \<Rightarrow> Inr s1) = Inr s'"
      by (auto dest!: err_bind_Inr)
    from keys_opt_step [OF 1] keys_opt_step [OF 2] show ?thesis by blast
  next
    case ge
    then have "s' = (case max_val li of
                   Some hi \<Rightarrow> set_var r (meet ri (Interval None (Some hi)))
                     (case min_val ri of
                        Some lo \<Rightarrow> set_var l (meet li (Interval (Some lo) None)) s
                      | None \<Rightarrow> s)
                 | None \<Rightarrow> (case min_val ri of
                        Some lo \<Rightarrow> set_var l (meet li (Interval (Some lo) None)) s
                      | None \<Rightarrow> s))"
      using assms by (simp add: refine_variables_def Let_def)
    then show ?thesis
      using keys_opt_pure [where s = s and b = "min_val ri" and v = l
                             and h = "\<lambda>lo. meet li (Interval (Some lo) None)"]
      by (cases "max_val li") (auto simp: keys_set_var)
  next
    case eq
    then show ?thesis using assms by (auto simp: refine_variables_def Let_def keys_set_var)
  next
    case other
    then show ?thesis using assms by (simp add: refine_variables_def)
  qed
qed

lemma keys_process_condition:
  assumes "process_condition n s = Inr s'"
  shows "tracked_keys s \<subseteq> tracked_keys s'"
proof (cases "expression n")
  case None
  then show ?thesis using assms by (simp add: process_condition_def)
next
  case (Some e)
  obtain left op right where e: "e = (left, op, right)" by (cases e)
  show ?thesis
  proof (cases "is_constant right")
    case True
    then obtain c where c: "var_kind right = Constant c"
      by (auto simp: is_constant_def split: vkind.splits)
    have "s' = s \<or> (\<exists>iv. s' = set_var left iv s)"
      using assms unfolding process_condition_def Some e
      by (auto simp: c split: option.splits if_splits)
    then show ?thesis by (auto simp: keys_set_var)
  next
    case False
    then have eq: "process_condition n s =
        (case (map_of (tracked_vars s) left, map_of (tracked_vars s) right) of
           (Some left_interval, Some right_interval) \<Rightarrow>
             refine_variables op left right left_interval right_interval s
         | _ \<Rightarrow> Inr s)"
      unfolding process_condition_def Some e prod.case
      by (cases "var_kind right") (simp_all add: is_constant_def)
    show ?thesis using assms [unfolded eq] keys_refine_variables
      by (auto split: option.splits)
  qed
qed

lemma keys_process_ir:
  assumes "process_ir i s = Inr s'"
  shows "tracked_keys s \<subseteq> tracked_keys s'"
proof (cases i)
  case (Binary lv t l r)
  then show ?thesis using assms keys_handle_binary_op by (simp add: process_ir_def)
next
  case (Assignment lv rv)
  then have "s' = handle_assignment lv rv s" using assms by (simp add: process_ir_def)
  then show ?thesis by (simp add: keys_handle_assignment)
next
  case (TypeConversion lv v)
  then show ?thesis using assms keys_handle_type_conversion by (simp add: process_ir_def)
next
  case (Member lv l r)
  then have "s' = handle_member lv l r s" using assms by (simp add: process_ir_def)
  then show ?thesis by (simp add: keys_handle_member)
next
  case (SolidityCall lv f args)
  then show ?thesis using assms keys_handle_solidity_call by (simp add: process_ir_def)
next
  case (Call lv f args)
  then have "s' = handle_function_call lv f s" using assms by (simp add: process_ir_def)
  then show ?thesis by (simp add: keys_handle_function_call)
next
  case (OtherIR lv rv)
  then show ?thesis using assms by (simp add: process_ir_def)
qed

lemma keys_process_irs:
  "process_irs instrs s = Inr s' \<Longrightarrow> tracked_keys s \<subseteq> tracked_keys s'"
proof (induction instrs arbitrary: s)
  case Nil
  then show ?case by simp
next
  case (Cons i rest)
  show ?case
  proof (cases "process_ir i s")
    case (Inl e)
    then show ?thesis using Cons.prems by simp
  next
    case (Inr s1)
    then have "process_irs rest s1 = Inr s'" using Cons.prems by simp
    from keys_process_ir [OF Inr] Cons.IH [OF this] show ?thesis by blast
  qed
qed

lemma keys_widen_state [simp]: "tracked_keys (widen_state old s) = tracked_keys s"
proof -
  have "map fst (map (\<lambda>(var, iv). case map_of old (Original var) of None \<Rightarrow> (var, iv)
                                   | Some o_iv \<Rightarrow> (var, widen o_iv iv)) xs) = map fst xs" for xs
    by (induction xs) (auto split: option.splits)
  then have "fst ` set (tracked_vars (widen_state old s)) = fst ` set (tracked_vars s)"
    unfolding widen_state_def by (metis (no_types, lifting) analyzer.select_convs(1)
        analyzer.surjective analyzer.update_convs(1) set_map)
  then show ?thesis by (simp add: tracked_keys_def)
qed

lemma keys_narrow_state [simp]: "tracked_keys (narrow_state old s) = tracked_keys s"
proof -
  have "map fst (map (\<lambda>(var, iv). case map_of old (Original var) of None \<Rightarrow> (var, iv)
                                   | Some o_iv \<Rightarrow> (var, narrow iv o_iv)) xs) = map fst xs" for xs
    by (induction xs) (auto split: option.splits)
  then have "fst ` set (tracked_vars (narrow_state old s)) = fst ` set (tracked_vars s)"
    unfolding narrow_state_def by (metis (no_types, lifting) analyzer.select_convs(1)
        analyzer.surjective analyzer.update_convs(1) set_map)
  then show ?thesis by (simp add: tracked_keys_def)
qed

lemma keys_cond_step:
  "(if contains_if n then process_condition n s else Inr s) = Inr s' \<Longrightarrow>
   tracked_keys s \<subseteq> tracked_keys s'"
  using keys_process_condition by (cases "contains_if n") auto

lemma keys_node_body:
  assumes "err_bind (if contains_if n then process_condition n s else Inr s)
             (\<lambda>s1. err_bind (process_irs (irs n) s1) (\<lambda>s2. k s2)) = Inr r"
  obtains s2 where "tracked_keys s \<subseteq> tracked_keys s2" "k s2 = Inr r"
proof (cases "if contains_if n then process_condition n s else Inr s")
  case (Inl e)
  then show ?thesis using assms by simp
next
  case (Inr s1)
  note c = this
  show ?thesis
  proof (cases "process_irs (irs n) s1")
    case (Inl e)
    then show ?thesis using assms c by simp
  next
    case (Inr s2)
    have "k s2 = Inr r" using assms c Inr by simp
    moreover have "tracked_keys s \<subseteq> tracked_keys s2"
      using keys_cond_step [OF c] keys_process_irs [OF Inr] by blast
    ultimately show ?thesis using that by blast
  qed
qed

lemma keys_visit_node:
  assumes "visit_node f n ls = Inr ls'"
  shows "tracked_keys (ls_analyzer ls) \<subseteq> tracked_keys (ls_analyzer ls')"
proof -
  define s where "s = ls_analyzer ls"
  define history where "history = (case map_of (ls_iteration_states ls) (node_id n) of
                       None \<Rightarrow> [] | Some h \<Rightarrow> h) @ [snapshot_state s]"
  define k where "k = (\<lambda>s2.
        err_bind (state_changed (snapshot_state s)
                    (tracked_vars (if length history \<ge> widening_threshold
                                   then widen_state (snapshot_state s) s2 else s2))) (\<lambda>changed.
          Inr \<lparr>ls_analyzer = (if length history \<ge> widening_threshold
                                then widen_state (snapshot_state s) s2 else s2),
               ls_worklist = (if changed
                              then append_sons (nodes f) (ls_processed ls) (sons n) (ls_worklist ls)
                              else ls_worklist ls),
               ls_processed = insert (node_id n) (ls_processed ls),
               ls_iteration_states =
                 AList.update (node_id n) history (ls_iteration_states ls)\<rparr>))"
  have h: "visit_node f n ls =
      err_bind (if contains_if n then process_condition n s else Inr s)
        (\<lambda>s1. err_bind (process_irs (irs n) s1) (\<lambda>s2. k s2))"
    unfolding visit_node_def Let_def s_def history_def k_def ..
  from assms [unfolded h] obtain s2 where
    1: "tracked_keys s \<subseteq> tracked_keys s2" and 2: "k s2 = Inr ls'"
    by (rule keys_node_body)
  define s3 where "s3 = (if length history \<ge> widening_threshold
                         then widen_state (snapshot_state s) s2 else s2)"
  have k3: "tracked_keys s3 = tracked_keys s2" by (simp add: s3_def)
  have "ls_analyzer ls' = s3"
  proof (cases "state_changed (snapshot_state s) (tracked_vars s3)")
    case (Inl e)
    then show ?thesis using 2 unfolding k_def s3_def [symmetric] by simp
  next
    case (Inr changed)
    then show ?thesis using 2 unfolding k_def s3_def [symmetric] by auto
  qed
  then show ?thesis using 1 k3 by (simp add: s_def)
qed

lemma keys_visit_batch:
  "visit_batch f ns ls = Inr ls' \<Longrightarrow>
   tracked_keys (ls_analyzer ls) \<subseteq> tracked_keys (ls_analyzer ls')"
proof (induction ns arbitrary: ls)
  case Nil
  then show ?case by simp
next
  case (Cons n rest)
  show ?case
  proof (cases "visit_node f n ls")
    case (Inl e)
    then show ?thesis using Cons.prems by simp
  next
    case (Inr ls1)
    then have "visit_batch f rest ls1 = Inr ls'" using Cons.prems by simp
    from keys_visit_node [OF Inr] Cons.IH [OF this] show ?thesis by blast
  qed
qed

lemma keys_worklist_loop:
  "worklist_loop k f ls = Inr ls' \<Longrightarrow>
   tracked_keys (ls_analyzer ls) \<subseteq> tracked_keys (ls_analyzer ls')"
proof (induction k arbitrary: ls)
  case 0
  then show ?case by simp
next
  case (Suc k)
  show ?case
  proof (cases "ls_worklist ls = []")
    case True
    then show ?thesis using Suc.prems by simp
  next
    case False
    define b where "b = min worklist_batch_size (length (ls_worklist ls))"
    define ls0 where "ls0 = ls\<lparr>ls_worklist := drop b (ls_worklist ls)\<rparr>"
    have a: "err_bind (visit_batch f (take b (ls_worklist ls)) ls0) (worklist_loop k f) = Inr ls'"
      using Suc.prems False by (simp add: Let_def b_def ls0_def)
    show ?thesis
    proof (cases "visit_batch f (take b (ls_worklist ls)) ls0")
      case (Inl e)
      then show ?thesis using a by simp
    next
      case (Inr ls1)
      then have "worklist_loop k f ls1 = Inr ls'" using a by simp
      from keys_visit_batch [OF Inr] Suc.IH [OF this] show ?thesis by (simp add: ls0_def)
    qed
  qed
qed

lemma keys_narrow_pass:
  "narrow_pass ns its s = Inr s' \<Longrightarrow> tracked_keys s \<subseteq> tracked_keys s'"
proof (induction ns arbitrary: s)
  case Nil
  then show ?case by simp
next
  case (Cons n rest)
  show ?case
  proof (cases "map_of its (node_id n)")
    case None
    then show ?thesis using Cons by simp
  next
    case (Some h)
    show ?thesis
    proof (cases "h = []")
      case True
      then show ?thesis using Cons Some by simp
    next
      case False
      have "err_bind (if contains_if n then process_condition n s else Inr s)
              (\<lambda>s1. err_bind (process_irs (irs n) s1)
                 (\<lambda>s2. narrow_pass rest its (narrow_state (last h) s2))) = Inr s'"
        using Cons.prems Some False by (simp add: Let_def)
      then obtain s2 where
        1: "tracked_keys s \<subseteq> tracked_keys s2" and
        2: "narrow_pass rest its (narrow_state (last h) s2) = Inr s'"
        by (rule keys_node_body)
      from 1 Cons.IH [OF 2] show ?thesis by simp
    qed
  qed
qed

lemma keys_narrow_passes:
  "narrow_passes k ns its s = Inr s' \<Longrightarrow> tracked_keys s \<subseteq> tracked_keys s'"
proof (induction k arbitrary: s)
  case 0
  then show ?case by simp
next
  case (Suc k)
  show ?case
  proof (cases "narrow_pass ns its s")
    case (Inl e)
    then show ?thesis using Suc.prems by simp
  next
    case (Inr s1)
    then have "narrow_passes k ns its s1 = Inr s'" using Suc.prems by simp
    from keys_narrow_pass [OF Inr] Suc.IH [OF this] show ?thesis by blast
  qed
qed

lemma keys_iterate_and_narrow:
  assumes "iterate_and_narrow f s = Inr s'"
  shows "tracked_keys s \<subseteq> tracked_keys s'"
proof (cases "worklist_loop max_iterations f
          \<lparr>ls_analyzer = s, ls_worklist = nodes f, ls_processed = {}, ls_iteration_states = []\<rparr>")
  case (Inl e)
  then show ?thesis using assms by (simp add: iterate_and_narrow_def)
next
  case (Inr ls)
  then have "narrow_passes narrowing_iterations (nodes f) (ls_iteration_states ls) (ls_analyzer ls) = Inr s'"
    using assms by (simp add: iterate_and_narrow_def)
  from keys_worklist_loop [OF Inr] keys_narrow_passes [OF this] show ?thesis by simp
qed

lemma run_targets_append:
  "run_targets (xs @ ys) s results =
     err_bind (run_targets xs s results) (\<lambda>(s', results'). run_targets ys s' results')"
proof (induction xs arbitrary: s results)
  case Nil
  then show ?case by simp
next
  case (Cons x xs)
  obtain cname f where x: "x = (cname, f)" by (cases x)
  show ?case
    by (cases "analyze_function_worklist f s") (simp_all add: x Cons.IH)
qed

lemma analyze_functions_targets:
  "analyze_functions cname fs s results =
     run_targets (map (Pair cname)
                    (filter (\<lambda>f. \<not> (is_constructor f \<or>
                                      func_name f = ''slitherConstructorVariables'')) fs))
       s results"
proof (induction fs arbitrary: s results)
  case Nil
  then show ?case by simp
next
  case (Cons f fs)
  show ?case
  proof (cases "is_constructor f \<or> func_name f = ''slitherConstructorVariables''")
    case True
    then show ?thesis using Cons.IH by auto
  next
    case False
    then show ?thesis
      by (cases "analyze_function_worklist f s") (simp_all add: Cons.IH)
  qed
qed

lemma analyze_contracts_targets:
  "analyze_contracts cs s results = run_targets (analysis_targets cs) s results"
proof (induction cs arbitrary: s results)
  case Nil
  then show ?case by (simp add: analysis_targets_def)
next
  case (Cons c cs)
  have t: "analysis_targets (c # cs) =
             (if is_defi_contract c
              then map (Pair (contract_name c))
                     (filter (\<lambda>f. \<not> (is_constructor f \<or>
                                       func_name f = ''slitherConstructorVariables''))
                             (contract_functions c))
              else []) @ analysis_targets cs"
    by (simp add: analysis_targets_def)
  show ?case
  proof (cases "is_defi_contract c")
    case False
    then show ?thesis using Cons.IH by (simp add: t)
  next
    case True
    show ?thesis
    proof (cases "analyze_functions (contract_name c) (contract_functions c) s results")
      case (Inl e)
      then show ?thesis
        using True Inl [unfolded analyze_functions_targets]
        by (simp add: t run_targets_append)
    next
      case (Inr r)
      then show ?thesis
        using True Inr [unfolded analyze_functions_targets]
        by (cases r) (simp add: t run_targets_append Cons.IH)
    qed
  qed
qed

lemma ex_targets: "analysis_targets [ex_pool] = [(''Pool'', ex_func), (''Pool'', ex_shift_func)]"
  by (simp add: analysis_targets_def is_defi_contract_def defi_patterns_def lower_def
        lower_char_def ex_pool_def ex_func_def ex_shift_func_def)

lemma ex_first:
  "analyze_function_worklist ex_func new_analyzer =
     Inr (new_analyzer\<lparr>tracked_vars := [(ex_t, int_interval 5 5)],
                       function_summaries := [(0, \<lparr>sum_params = [], sum_returns = []\<rparr>)]\<rparr>)"
  by (simp add: analyze_function_worklist_def seed_def assigned_vars_def is_deFi_critical_def
        critical_patterns_def lower_def lower_char_def tracked_def
        iterate_and_narrow_def max_iterations_def narrowing_iterations_def
        worklist_batch_size_def widening_threshold_def eval_nat_numeral visit_node_def
        snapshot_state_def state_changed_snapshot
        process_ir_def handle_assignment_def set_var_def
        Let_def interval_simps new_analyzer_def ex_simps)

lemma ex_second:
  "analyze_function_worklist ex_shift_func
     (new_analyzer\<lparr>tracked_vars := [(ex_t, int_interval 5 5)],
                   function_summaries := [(0, \<lparr>sum_params = [], sum_returns = []\<rparr>)]\<rparr>)
   = Inl ValueError"
  by (simp add: analyze_function_worklist_def seed_def assigned_vars_def is_deFi_critical_def
        critical_patterns_def defi_interface_patterns_def param_interval_def width_of_def
        dec_value_def is_digit_char_def half_range_def py_sub_def type_has_def
        lower_def lower_char_def tracked_def
        iterate_and_narrow_def max_iterations_def worklist_batch_size_def eval_nat_numeral
        visit_node_def snapshot_state_def process_ir_def handle_binary_op_def operand_interval_def get_var_def
        is_constant_def apply_binary_operation_def op_lshift_def shift_of_min_def
        py_min_def py_gt_def bound_or_def set_var_def
        Let_def interval_simps new_analyzer_def ex_simps)

lemma bump_seed:
  "seed ex_bump new_analyzer = Inr (new_analyzer\<lparr>tracked_vars := [(ex_i, int_interval 0 255)]\<rparr>)"
  by (simp add: seed_def assigned_vars_def is_deFi_critical_def critical_patterns_def
        defi_interface_patterns_def param_interval_def width_of_def dec_value_def
        is_digit_char_def lower_def lower_char_def tracked_def set_var_def
        Let_def interval_simps new_analyzer_def ex_i_def ex_one_def ex_bump_node_def ex_bump_def)

lemma bump_step:
  assumes "0 \<le> a" "b < 1000"
  shows "process_irs (irs ex_bump_node) (new_analyzer\<lparr>tracked_vars := [(ex_i, int_interval a b)]\<rparr>) =
           Inr (new_analyzer\<lparr>tracked_vars := [(ex_i, int_interval (a + 1) (b + 1))]\<rparr>)"
  using assms
  by (simp add: process_ir_def handle_binary_op_def operand_interval_def get_var_def tracked_def
        is_constant_def constant_operand_def apply_binary_operation_def op_add_def
        clamp_min_inf_def clamp_max_inf_def finish_def bound_or_def py_ge_def py_le_def
        check_overflow_underflow_def overflow_issue_def set_var_def
        Let_def interval_simps int256_min_def new_analyzer_def ex_i_def ex_one_def
        ex_bump_node_def)

lemma bump_run:
  "iterate_and_narrow ex_bump (new_analyzer\<lparr>tracked_vars := [(ex_i, int_interval 0 255)]\<rparr>) =
     Inr (new_analyzer\<lparr>tracked_vars := [(ex_i, int_interval 4 259)]\<rparr>)"
proof -
  have n: "contains_if ex_bump_node = False" "sons ex_bump_node = [0]" "node_id ex_bump_node = 0"
          "nodes ex_bump = [ex_bump_node]"
    by (simp_all add: ex_bump_node_def ex_bump_def)
  show ?thesis
    by (simp add: iterate_and_narrow_def max_iterations_def narrowing_iterations_def
          worklist_batch_size_def widening_threshold_def eval_nat_numeral visit_node_def
          snapshot_state_def state_changed_snapshot n bump_step Let_def)
qed

lemma ex_bump_analysis:
  "analyze_function_worklist ex_bump new_analyzer =
     Inr (new_analyzer\<lparr>tracked_vars := [(ex_i, int_interval 4 259)],
                        function_summaries :=
                          [(2, \<lparr>sum_params = [(ex_i, int_interval 4 259)], sum_returns = []\<rparr>)]\<rparr>)"
proof -
  have f: "parameters ex_bump = [ex_i]" "returns ex_bump = []" "func_id ex_bump = 2"
    by (simp_all add: ex_bump_def)
  have e: "function_summaries new_analyzer = []" by (simp add: new_analyzer_def)
  show ?thesis
    by (simp add: analyze_function_worklist_def bump_seed bump_run get_var_def f e)
qed

lemma spin_seed:
  "seed ex_spin new_analyzer = Inr (new_analyzer\<lparr>tracked_vars := [(ex_i, int_interval 0 255)]\<rparr>)"
  by (simp add: seed_def assigned_vars_def is_deFi_critical_def critical_patterns_def
        defi_interface_patterns_def param_interval_def width_of_def dec_value_def
        is_digit_char_def lower_def lower_char_def tracked_def set_var_def
        Let_def interval_simps new_analyzer_def ex_i_def ex_one_def ex_spin_node_def ex_spin_def)

lemma spin_run:
  "iterate_and_narrow ex_spin (new_analyzer\<lparr>tracked_vars := [(ex_i, int_interval 0 255)]\<rparr>) =
     Inr (new_analyzer\<lparr>tracked_vars := [(ex_i, int_interval 5 260)]\<rparr>)"
proof -
  have n: "contains_if ex_spin_node = False" "sons ex_spin_node = [0, 0]"
          "node_id ex_spin_node = 0" "nodes ex_spin = [ex_spin_node]"
          "irs ex_spin_node = irs ex_bump_node"
    by (simp_all add: ex_spin_node_def ex_spin_def ex_bump_node_def)
  show ?thesis
    by (simp add: iterate_and_narrow_def max_iterations_def narrowing_iterations_def
          worklist_batch_size_def widening_threshold_def eval_nat_numeral visit_node_def
          snapshot_state_def state_changed_snapshot n bump_step Let_def)
qed

lemma ex_spin_analysis:
  "analyze_function_worklist ex_spin new_analyzer =
     Inr (new_analyzer\<lparr>tracked_vars := [(ex_i, int_interval 5 260)],
                        function_summaries :=
                          [(3, \<lparr>sum_params = [(ex_i, int_interval 5 260)], sum_returns = []\<rparr>)]\<rparr>)"
proof -
  have f: "parameters ex_spin = [ex_i]" "returns ex_spin = []" "func_id ex_spin = 3"
    by (simp_all add: ex_spin_def)
  have e: "function_summaries new_analyzer = []" by (simp add: new_analyzer_def)
  show ?thesis
    by (simp add: analyze_function_worklist_def spin_seed spin_run get_var_def f e)
qed

section \<open>Properties of the interval domain\<close>

text \<open>
  Claim C9. Widening never loses a value of its first argument: for an interval \<open>a\<close>
  that is not bottom, each bound of \<open>a.widen(b)\<close> is either the bound of \<open>a\<close> or
  the infinity on its side, a bound of \<open>a\<close> that is \<open>None\<close> stays \<open>None\<close>, and every
  integer contained in \<open>a\<close> is contained in \<open>a.widen(b)\<close>. For \<open>a\<close> bottom the
  result is \<open>b\<close>.
\<close>

theorem widen_never_shrinks:
  "(is_bottom a \<longrightarrow> widen a b = b) \<and>
   (\<not> is_bottom a \<longrightarrow>
      (min_val (widen a b) = min_val a \<or> min_val (widen a b) = Some NInf) \<and>
      (max_val (widen a b) = max_val a \<or> max_val (widen a b) = Some PInf) \<and>
      (min_val a = None \<longrightarrow> min_val (widen a b) = None) \<and>
      (max_val a = None \<longrightarrow> max_val (widen a b) = None) \<and>
      (\<forall>v. contains a v \<longrightarrow> contains (widen a b) v))"
proof (intro conjI impI allI)
  assume "is_bottom a" then show "widen a b = b" by (simp add: widen_def)
next
  assume nb: "\<not> is_bottom a"
  show "min_val (widen a b) = min_val a \<or> min_val (widen a b) = Some NInf"
    using nb by (auto simp: widen_def Interval_def Let_def split: option.splits)
next
  assume nb: "\<not> is_bottom a"
  show "max_val (widen a b) = max_val a \<or> max_val (widen a b) = Some PInf"
    using nb by (auto simp: widen_def Interval_def Let_def split: option.splits)
next
  assume "\<not> is_bottom a" "min_val a = None"
  then show "min_val (widen a b) = None"
    by (auto simp: widen_def Interval_def Let_def is_bottom_def split: option.splits)
next
  assume "\<not> is_bottom a" "max_val a = None"
  then show "max_val (widen a b) = None"
    by (auto simp: widen_def Interval_def Let_def is_bottom_def split: option.splits)
next
  fix v assume nb: "\<not> is_bottom a" and c: "contains a v"
  have lo: "(case min_val (widen a b) of None \<Rightarrow> True | Some lo \<Rightarrow> py_le lo (PInt v))"
    using c by (auto simp: widen_def Interval_def Let_def contains_def py_le_def split: option.splits)
  have hi: "(case max_val (widen a b) of None \<Rightarrow> True | Some hi \<Rightarrow> py_le (PInt v) hi)"
    using c by (auto simp: widen_def Interval_def Let_def contains_def py_le_def split: option.splits)
  have nbw: "\<not> is_bottom (widen a b)"
    using nb by (auto simp: widen_def Interval_def Let_def is_bottom_def split: option.splits if_splits)
  show "contains (widen a b) v" using lo hi nbw by (simp add: contains_def)
qed

theorem widen_never_shrinks_witness:
  "\<not> is_bottom (Interval (Some (PInt 0)) (Some (PInt 5))) \<and>
   contains (Interval (Some (PInt 0)) (Some (PInt 5))) 3 \<and>
   widen (Interval (Some (PInt 0)) (Some (PInt 5))) (Interval (Some (PInt (-2))) (Some (PInt 10)))
     = Interval (Some NInf) (Some PInf) \<and>
   contains (widen (Interval (Some (PInt 0)) (Some (PInt 5))) (Interval (Some (PInt (-2))) (Some (PInt 10)))) 3 \<and>
   is_bottom (Interval None None) \<and>
   widen (Interval None None) (Interval (Some (PInt 1)) (Some (PInt 2))) = Interval (Some (PInt 1)) (Some (PInt 2))"
  using widen_never_shrinks [of "Interval (Some (PInt 0)) (Some (PInt 5))" "Interval (Some (PInt (-2))) (Some (PInt 10))"]
        widen_never_shrinks [of "Interval None None" "Interval (Some (PInt 1)) (Some (PInt 2))"]
  by (simp add: Interval_def is_bottom_def contains_def py_le_def widen_def py_gt_def)

text \<open>
  Claim C2 (corrected). The invariant "bottom, top, or two integer bounds with
  \<open>min \<le> max\<close>" does not hold after every operation: widening installs an infinite
  bound on one side only. What holds: on operands that satisfy the invariant, \<open>join\<close>,
  \<open>meet\<close> and \<open>narrow\<close> return an interval that satisfies it, \<open>meet\<close> returns
  bottom when the operands do not overlap, and \<open>widen\<close> returns bottom or an
  interval whose lower bound is an integer or minus infinity and whose upper bound is an
  integer or plus infinity, ordered when both are integers.
\<close>

theorem lattice_operations_invariant:
  assumes "invariant a" "invariant b"
  shows "invariant (join a b) \<and> invariant (meet a b) \<and> invariant (narrow a b) \<and>
         widened (widen a b) \<and>
         (\<forall>a1 a2 b1 b2. a = int_interval a1 a2 \<and> b = int_interval b1 b2 \<and> max a1 b1 > min a2 b2
             \<longrightarrow> is_bottom (meet a b))"
  using assms
  by (auto simp: join_invariant meet_invariant narrow_invariant widen_widened meet_disjoint
        simp del: max_less_iff_conj min_less_iff_conj) (simp add: interval_simps)

text \<open>
  The instance for C2: \<open>[0, 5]\<close> and \<open>[7, 10]\<close> satisfy the invariant, their join is
  \<open>[0, 10]\<close> and their meet is bottom.
\<close>

theorem lattice_operations_invariant_witness:
  "invariant (int_interval 0 5) \<and> invariant (int_interval 7 10) \<and>
   join (int_interval 0 5) (int_interval 7 10) = int_interval 0 10 \<and>
   invariant (join (int_interval 0 5) (int_interval 7 10)) \<and>
   is_bottom (meet (int_interval 0 5) (int_interval 7 10)) \<and>
   widened (widen (int_interval 0 5) (int_interval 7 10))"
proof -
  have h: "invariant (int_interval 0 5)" "invariant (int_interval 7 10)"
    by (simp_all add: invariant_def finite_ordered_def interval_simps)
  have j: "join (int_interval 0 5) (int_interval 7 10) = int_interval 0 10"
    by (simp add: join_def interval_simps py_min_def py_max_def py_gt_def)
  show ?thesis
    using lattice_operations_invariant [OF h] h j by auto
qed

text \<open>
  The counterexample for C2 as stated: \<open>[0, 5].widen([0, 10])\<close> is \<open>[0, inf]\<close>, which
  is neither bottom nor top and whose upper bound is not an integer.
\<close>

theorem widen_invariant_counterexample:
  "widen (int_interval 0 5) (int_interval 0 10) = Interval (Some (PInt 0)) (Some PInf) \<and>
   \<not> is_bottom (Interval (Some (PInt 0)) (Some PInf)) \<and>
   \<not> is_top (Interval (Some (PInt 0)) (Some PInf)) \<and>
   \<not> finite_ordered (Interval (Some (PInt 0)) (Some PInf))"
  by (simp add: widen_def interval_simps finite_ordered_def py_gt_def)

section \<open>Properties of the transfer functions\<close>

text \<open>
  Claim C1 (defect in the code). The handler of library calls passes the callee's name
  (\<open>add\<close>) to \<open>_apply_binary_operation\<close>, which knows the operator \<open>+\<close> but not
  the name, so the call falls into the branch for unknown operators: for
  \<open>c = add(a, b)\<close> with \<open>a = [1, 1]\<close> and \<open>b = [2, 2]\<close> the handler installs the
  full machine interval for \<open>c\<close>, while the rule for \<open>+\<close> on the same operands
  gives \<open>[3, 3]\<close>.
\<close>

theorem library_add_installs_full_range:
  "handle_solidity_call ex_c safe_add [ex_a, ex_b] (ex_state (int_interval 1 1) (int_interval 2 2)) =
     Inr ((ex_state (int_interval 1 1) (int_interval 2 2))
          \<lparr>tracked_vars := [(ex_a, int_interval 1 1), (ex_b, int_interval 2 2), (ex_c, full_range)],
           safemath_processed := {ex_c}\<rparr>) \<and>
   apply_binary_operation ''+'' (int_interval 1 1) (int_interval 2 2) [] = Inr (int_interval 3 3, []) \<and>
   full_range \<noteq> int_interval 3 3"
  by (simp add: handle_solidity_call_def lower_def lower_char_def tracked_def get_var_def
        apply_binary_operation_def op_add_def clamp_min_inf_def clamp_max_inf_def finish_def
        set_var_def bound_or_def py_le_def py_ge_def py_gt_def Let_def interval_simps ex_simps
        int256_min_def uint256_max_def)




text \<open>
  Claim C4 (corrected). For a comparison or a boolean connective the transfer function
  returns bottom when an operand is bottom, otherwise top when an operand is top, and
  \<open>[0, 1]\<close> for every other pair of operand intervals; it records no issue.
\<close>

theorem comparison_transfer:
  assumes "op_type \<in> set [''<'', ''<='', ''>'', ''>='', ''=='', ''!='', ''&&'', ''||'']"
  shows "apply_binary_operation op_type l r issues =
           Inr (if is_bottom l \<or> is_bottom r then Interval None None
                else if is_top l \<or> is_top r then Interval (Some NInf) (Some PInf)
                else int_interval 0 1, issues)"
  using assms by (auto simp: apply_binary_operation_def Let_def)

text \<open>
  The instance for C4: \<open><=\<close> on two integer intervals, on a bottom and on a top
  operand.
\<close>

theorem comparison_transfer_witness:
  "''<='' \<in> set [''<'', ''<='', ''>'', ''>='', ''=='', ''!='', ''&&'', ''||''] \<and>
   apply_binary_operation ''<='' (int_interval 3 7) (int_interval (-2) 2) [] =
     Inr (int_interval 0 1, []) \<and>
   apply_binary_operation ''<='' (Interval None None) (int_interval (-2) 2) [] =
     Inr (Interval None None, []) \<and>
   apply_binary_operation ''<='' (int_interval 3 7) (Interval (Some NInf) (Some PInf)) [] =
     Inr (Interval (Some NInf) (Some PInf), [])"
  using comparison_transfer [of "''<=''" "int_interval 3 7" "int_interval (-2) 2" "[]"]
        comparison_transfer [of "''<=''" "Interval None None" "int_interval (-2) 2" "[]"]
        comparison_transfer [of "''<=''" "int_interval 3 7" "Interval (Some NInf) (Some PInf)" "[]"]
  by (simp add: interval_simps)

text \<open>
  The counterexample for C4 as stated: \<open><\<close> with a bottom left operand does not give
  \<open>[0, 1]\<close>.
\<close>

theorem comparison_bottom_counterexample:
  "apply_binary_operation ''<'' (Interval None None) (int_interval 0 1) [] \<noteq>
     Inr (int_interval 0 1, [])"
  by (simp add: apply_binary_operation_def interval_simps)

text \<open>
  Claim C5 (defect in the code). For \<open>c = a + b\<close> with \<open>a = b = [2^255, 2^255]\<close> the
  handler records the overflow issue, but the interval it installs for \<open>c\<close> has the
  lower bound \<open>2^256\<close> above the upper bound \<open>2^256 - 1\<close>: the lower bound is clamped
  from below only. It is not the point interval at the machine ceiling.
\<close>

theorem overflow_boundary_lower_bound_unclamped:
  "handle_binary_op ''+'' ex_c ex_a ex_b (ex_state (int_interval (2 ^ 255) (2 ^ 255)) (int_interval (2 ^ 255) (2 ^ 255))) =
     Inr ((ex_state (int_interval (2 ^ 255) (2 ^ 255)) (int_interval (2 ^ 255) (2 ^ 255)))
          \<lparr>tracked_vars := [(ex_a, int_interval (2 ^ 255) (2 ^ 255)), (ex_b, int_interval (2 ^ 255) (2 ^ 255)),
                            (ex_c, int_interval (2 ^ 256) (2 ^ 256 - 1))],
           potential_issues := [AddOverflow ex_c (int_interval (2 ^ 255) (2 ^ 255)) (int_interval (2 ^ 255) (2 ^ 255))]\<rparr>) \<and>
   int_interval (2 ^ 256) (2 ^ 256 - 1) \<noteq> int_interval (2 ^ 256 - 1) (2 ^ 256 - 1)"
  by (simp add: handle_binary_op_def operand_interval_def get_var_def is_constant_def tracked_def
        apply_binary_operation_def op_add_def clamp_min_inf_def clamp_max_inf_def finish_def
        check_overflow_underflow_def overflow_issue_def set_var_def
        add_issue_def bound_or_def py_le_def py_ge_def py_gt_def Let_def interval_simps ex_simps
        int256_min_def uint256_max_def)

text \<open>
  Claim C6 (corrected). For \<open>balance = balance - amount\<close>, where the type of
  \<open>balance\<close> contains \<open>uint\<close> and both operands are tracked with \<open>[0, 2^256 - 1]\<close>,
  the handler installs \<open>[-2^255, 2^256 - 1]\<close> for \<open>balance\<close>, on which the bounds
  check reports an underflow. It records the subtraction underflow issue unless
  \<open>balance\<close> is marked as the result of a safe-math library call: the check for
  overflow and underflow skips a marked target, and then no issue is recorded.
\<close>

theorem subtraction_underflow:
  assumes b: "map_of (tracked_vars s) balance = Some (int_interval 0 uint256_max)"
      and a: "map_of (tracked_vars s) amount = Some (int_interval 0 uint256_max)"
      and u: "type_has ''uint'' balance"
  shows "\<exists>s'. handle_binary_op ''-'' balance balance amount s = Inr s' \<and>
              potential_issues s' = potential_issues s @
                 (if balance \<in> safemath_processed s then []
                  else [SubUnderflow balance (int_interval 0 uint256_max) (int_interval 0 uint256_max)]) \<and>
              map_of (tracked_vars s') balance = Some full_range \<and>
              check_bounds_violation balance s' = Some Underflow"
proof -
  have ap: "apply_binary_operation ''-'' (int_interval 0 uint256_max) (int_interval 0 uint256_max)
              (potential_issues s) = Inr (full_range, potential_issues s)"
    by (simp add: apply_binary_operation_def op_sub_def py_sub_def clamp_min_inf_def
          clamp_max_inf_def finish_def bound_or_def py_ge_def py_le_def Let_def interval_simps
          int256_min_def uint256_max_def)
  have ov: "overflow_issue ''-'' (int_interval 0 uint256_max) (int_interval 0 uint256_max) balance =
              Inr (Some (SubUnderflow balance (int_interval 0 uint256_max) (int_interval 0 uint256_max)))"
    using u by (simp add: overflow_issue_def interval_simps uint256_max_def)
  let ?s1 = "set_var balance full_range (s\<lparr>potential_issues := potential_issues s\<rparr>)"
  let ?i = "SubUnderflow balance (int_interval 0 uint256_max) (int_interval 0 uint256_max)"
  have sm: "(balance \<in> safemath_processed ?s1) = (balance \<in> safemath_processed s)"
    by (simp add: set_var_def)
  have hb: "handle_binary_op ''-'' balance balance amount s =
              Inr (if balance \<in> safemath_processed s then ?s1 else add_issue ?i ?s1)"
    using sm by (simp add: handle_binary_op_def operand_interval_tracked [OF a]
          operand_interval_tracked [OF b] ap check_overflow_underflow_def ov Let_def)
  have cb1: "check_bounds_violation balance ?s1 = Some Underflow"
    using u by (simp add: check_bounds_violation_def py_ge_def py_le_def interval_simps
          int256_min_def uint256_max_def)
  have cb2: "check_bounds_violation balance (add_issue ?i ?s1) = Some Underflow"
    using u by (simp add: check_bounds_violation_def py_ge_def py_le_def interval_simps
          int256_min_def uint256_max_def)
  show ?thesis
  proof (cases "balance \<in> safemath_processed s")
    case True
    then show ?thesis unfolding hb using cb1 by simp
  next
    case False
    then show ?thesis unfolding hb using cb2 by simp
  qed
qed

text \<open>
  The instances for C6: a state variable \<open>balance\<close> and a parameter \<open>amount\<close>, both
  \<open>uint256\<close>; the issue is recorded in the state where \<open>balance\<close> is not marked
  and is not recorded in the state where it is.
\<close>

theorem subtraction_underflow_witness:
  "map_of (tracked_vars ex_ledger) ex_balance = Some (int_interval 0 uint256_max) \<and>
   map_of (tracked_vars ex_ledger) ex_amount = Some (int_interval 0 uint256_max) \<and>
   type_has ''uint'' ex_balance \<and>
   (\<exists>s'. handle_binary_op ''-'' ex_balance ex_balance ex_amount ex_ledger = Inr s' \<and>
          potential_issues s' =
            [SubUnderflow ex_balance (int_interval 0 uint256_max) (int_interval 0 uint256_max)] \<and>
          check_bounds_violation ex_balance s' = Some Underflow) \<and>
   (\<exists>s'. handle_binary_op ''-'' ex_balance ex_balance ex_amount ex_marked = Inr s' \<and>
          potential_issues s' = [] \<and>
          check_bounds_violation ex_balance s' = Some Underflow)"
proof -
  have h1: "map_of (tracked_vars ex_ledger) ex_balance = Some (int_interval 0 uint256_max)"
           "map_of (tracked_vars ex_marked) ex_balance = Some (int_interval 0 uint256_max)"
    by (simp_all add: ex_simps)
  have h2: "map_of (tracked_vars ex_ledger) ex_amount = Some (int_interval 0 uint256_max)"
           "map_of (tracked_vars ex_marked) ex_amount = Some (int_interval 0 uint256_max)"
    by (simp_all add: ex_simps)
  have h3: "type_has ''uint'' ex_balance"
    by (simp add: type_has_def lower_def lower_char_def ex_simps)
  have e: "potential_issues ex_ledger = []" "potential_issues ex_marked = []"
          "ex_balance \<notin> safemath_processed ex_ledger" "ex_balance \<in> safemath_processed ex_marked"
    by (simp_all add: ex_ledger_def ex_marked_def)
  show ?thesis
    using subtraction_underflow [OF h1(1) h2(1) h3] subtraction_underflow [OF h1(2) h2(2) h3]
          h1 h2 h3 e
    by auto
qed

text \<open>
  The counterexample for C6 as stated: \<open>balance\<close> has been the target of a call of
  \<open>SafeMath.sub\<close> and then of \<open>balanceOf\<close>, which leaves it marked and tracked with
  \<open>[0, 2^256 - 1]\<close>. The subtraction \<open>balance = balance - amount\<close> in this state
  records no issue.
\<close>

theorem subtraction_marked_counterexample:
  "process_irs [SolidityCall ex_balance safe_sub [ex_balance, ex_amount],
                Call ex_balance balance_of []] ex_ledger = Inr ex_marked \<and>
   map_of (tracked_vars ex_marked) ex_balance = Some (int_interval 0 uint256_max) \<and>
   map_of (tracked_vars ex_marked) ex_amount = Some (int_interval 0 uint256_max) \<and>
   type_has ''uint'' ex_balance \<and>
   handle_binary_op ''-'' ex_balance ex_balance ex_amount ex_marked =
     Inr (ex_marked\<lparr>tracked_vars := [(ex_balance, full_range),
                                       (ex_amount, int_interval 0 uint256_max)]\<rparr>) \<and>
   potential_issues (ex_marked\<lparr>tracked_vars := [(ex_balance, full_range),
                                       (ex_amount, int_interval 0 uint256_max)]\<rparr>) = []"
proof -
  have r: "process_irs [SolidityCall ex_balance safe_sub [ex_balance, ex_amount],
                        Call ex_balance balance_of []] ex_ledger = Inr ex_marked"
    by (simp add: process_ir_def handle_solidity_call_def handle_function_call_def
          tracked_def get_var_def apply_binary_operation_def set_var_def lower_def
          lower_char_def Let_def interval_simps uint256_max_def ex_simps)
  have h: "handle_binary_op ''-'' ex_balance ex_balance ex_amount ex_marked =
     Inr (ex_marked\<lparr>tracked_vars := [(ex_balance, full_range),
                                       (ex_amount, int_interval 0 uint256_max)]\<rparr>)"
    by (simp add: handle_binary_op_def operand_interval_def get_var_def tracked_def
          is_constant_def apply_binary_operation_def op_sub_def py_sub_def clamp_min_inf_def
          clamp_max_inf_def finish_def bound_or_def py_ge_def py_le_def
          check_overflow_underflow_def set_var_def Let_def interval_simps
          int256_min_def uint256_max_def ex_simps)
  have t: "type_has ''uint'' ex_balance"
    by (simp add: type_has_def lower_def lower_char_def ex_simps)
  show ?thesis using r h t by (simp add: ex_simps)
qed

section \<open>Properties of the worklist driver\<close>



text \<open>
  Claim C10. The set of tracked variables only grows during the analysis of a function:
  an instruction handler, the condition refiner and the visit of a node leave every
  tracked variable tracked whenever they return, and so does the whole run after the
  seeding (the worklist iteration followed by the narrowing passes).
\<close>

theorem tracked_keys_grow:
  "(process_ir i s = Inr s' \<longrightarrow> tracked_keys s \<subseteq> tracked_keys s') \<and>
   (process_condition n s = Inr s' \<longrightarrow> tracked_keys s \<subseteq> tracked_keys s') \<and>
   (visit_node f n ls = Inr ls' \<longrightarrow>
      tracked_keys (ls_analyzer ls) \<subseteq> tracked_keys (ls_analyzer ls')) \<and>
   (iterate_and_narrow f s = Inr s' \<longrightarrow> tracked_keys s \<subseteq> tracked_keys s')"
  using keys_process_ir keys_process_condition keys_visit_node keys_iterate_and_narrow
  by blast

text \<open>
  The instances for C10, from a state that tracks \<open>a\<close> and \<open>b\<close>: the conversion of
  \<open>a\<close> to the type \<open>Point0\<close> returns and adds its target with the bounds \<open>1\<close> and
  \<open>-0.5\<close>; the function with the single instruction \<open>t = 5\<close> is analysed, each step
  returns and \<open>t\<close> joins the tracked variables.
\<close>

theorem tracked_keys_grow_witness:
  "process_ir (TypeConversion ex_point ex_a) (ex_state (int_interval 1 1) (int_interval 2 2)) =
     Inr ((ex_state (int_interval 1 1) (int_interval 2 2))
            \<lparr>tracked_vars := [(ex_a, int_interval 1 1), (ex_b, int_interval 2 2),
                              (ex_point, Interval (Some (PInt 1)) (Some (PFloat (- (1 / 2)))))]\<rparr>) \<and>
   process_ir (Assignment ex_t ex_five) (ex_state (int_interval 1 1) (int_interval 2 2)) =
     Inr ((ex_state (int_interval 1 1) (int_interval 2 2))
            \<lparr>tracked_vars := [(ex_a, int_interval 1 1), (ex_b, int_interval 2 2),
                              (ex_t, int_interval 5 5)]\<rparr>) \<and>
   process_condition ex_node (ex_state (int_interval 1 1) (int_interval 2 2)) =
     Inr (ex_state (int_interval 1 1) (int_interval 2 2)) \<and>
   visit_node ex_func ex_node
     \<lparr>ls_analyzer = ex_state (int_interval 1 1) (int_interval 2 2), ls_worklist = [],
      ls_processed = {}, ls_iteration_states = []\<rparr> =
     Inr \<lparr>ls_analyzer = (ex_state (int_interval 1 1) (int_interval 2 2))
            \<lparr>tracked_vars := [(ex_a, int_interval 1 1), (ex_b, int_interval 2 2),
                              (ex_t, int_interval 5 5)]\<rparr>,
          ls_worklist = [], ls_processed = {0},
          ls_iteration_states =
            [(0, [[(Copied ex_a, int_interval 1 1), (Copied ex_b, int_interval 2 2)]])]\<rparr> \<and>
   iterate_and_narrow ex_func (ex_state (int_interval 1 1) (int_interval 2 2)) =
     Inr ((ex_state (int_interval 1 1) (int_interval 2 2))
            \<lparr>tracked_vars := [(ex_a, int_interval 1 1), (ex_b, int_interval 2 2),
                              (ex_t, int_interval 5 5)]\<rparr>) \<and>
   tracked_keys (ex_state (int_interval 1 1) (int_interval 2 2)) \<union>
     tracked_keys ((ex_state (int_interval 1 1) (int_interval 2 2))
            \<lparr>tracked_vars := [(ex_a, int_interval 1 1), (ex_b, int_interval 2 2),
                              (ex_t, int_interval 5 5)]\<rparr>) =
     tracked_keys ((ex_state (int_interval 1 1) (int_interval 2 2))
            \<lparr>tracked_vars := [(ex_a, int_interval 1 1), (ex_b, int_interval 2 2),
                              (ex_t, int_interval 5 5)]\<rparr>) \<and>
   tracked_keys (ex_state (int_interval 1 1) (int_interval 2 2)) \<union>
     tracked_keys ((ex_state (int_interval 1 1) (int_interval 2 2))
            \<lparr>tracked_vars := [(ex_a, int_interval 1 1), (ex_b, int_interval 2 2),
                              (ex_point, Interval (Some (PInt 1)) (Some (PFloat (- (1 / 2)))))]\<rparr>) =
     tracked_keys ((ex_state (int_interval 1 1) (int_interval 2 2))
            \<lparr>tracked_vars := [(ex_a, int_interval 1 1), (ex_b, int_interval 2 2),
                              (ex_point, Interval (Some (PInt 1)) (Some (PFloat (- (1 / 2)))))]\<rparr>)"
proof -
  let ?s0 = "ex_state (int_interval 1 1) (int_interval 2 2)"
  let ?s1 = "?s0\<lparr>tracked_vars := [(ex_a, int_interval 1 1), (ex_b, int_interval 2 2),
                                   (ex_t, int_interval 5 5)]\<rparr>"
  let ?s2 = "?s0\<lparr>tracked_vars := [(ex_a, int_interval 1 1), (ex_b, int_interval 2 2),
                              (ex_point, Interval (Some (PInt 1)) (Some (PFloat (- (1 / 2)))))]\<rparr>"
  let ?ls0 = "\<lparr>ls_analyzer = ?s0, ls_worklist = [], ls_processed = {}, ls_iteration_states = []\<rparr>"
  let ?ls1 = "\<lparr>ls_analyzer = ?s1, ls_worklist = [], ls_processed = {0},
               ls_iteration_states =
                 [(0, [[(Copied ex_a, int_interval 1 1), (Copied ex_b, int_interval 2 2)]])]\<rparr>"
  have h0: "process_ir (TypeConversion ex_point ex_a) ?s0 = Inr ?s2"
    by (simp add: process_ir_def handle_type_conversion_def width_of_point half_range_zero
          half_minus_one lower_def lower_char_def py_max_def py_min_def py_gt_def set_var_def
          Let_def interval_simps ex_simps)
  have h1: "process_ir (Assignment ex_t ex_five) ?s0 = Inr ?s1"
    by (simp add: process_ir_def handle_assignment_def set_var_def interval_simps ex_simps)
  have h2: "process_condition ex_node ?s0 = Inr ?s0"
    by (simp add: process_condition_def ex_node_def)
  have h3: "visit_node ex_func ex_node ?ls0 = Inr ?ls1"
    by (simp add: visit_node_def snapshot_state_def snapshot_of_def widening_threshold_def
          process_ir_def handle_assignment_def set_var_def Let_def interval_simps ex_simps)
  have h4: "iterate_and_narrow ex_func ?s0 = Inr ?s1"
    by (simp add: iterate_and_narrow_def max_iterations_def narrowing_iterations_def
          worklist_batch_size_def widening_threshold_def eval_nat_numeral visit_node_def
          snapshot_state_def state_changed_snapshot
          process_ir_def handle_assignment_def set_var_def
          Let_def interval_simps ex_simps)
  have k: "tracked_keys ?s0 \<subseteq> tracked_keys ?s1"
    using tracked_keys_grow [of "Assignment ex_t ex_five" ?s0 ?s1 ex_node ex_func ?ls0 ?ls1]
          tracked_keys_grow [of "Assignment ex_t ex_five" ?s0 ?s0 ex_node ex_func ?ls0 ?ls1]
          h1 h2 h3 h4
    by blast
  have k2: "tracked_keys ?s0 \<subseteq> tracked_keys ?s2"
    using tracked_keys_grow [of "TypeConversion ex_point ex_a" ?s0 ?s2 ex_node ex_func ?ls0 ?ls1] h0
    by blast
  show ?thesis using h0 h1 h2 h3 h4 k k2 by blast
qed

section \<open>Properties of the entry point\<close>

text \<open>
  Claim C7 (corrected). \<open>analyze\<close> has no exception handler. When the functions
  before \<open>f\<close> are analysed without an exception and the analysis of \<open>f\<close> raises
  \<open>e\<close>, then \<open>analyze\<close> raises \<open>e\<close>: no function after \<open>f\<close> is analysed and no
  result is returned. When no analysis raises, \<open>analyze\<close> returns the violations of
  the analysed functions followed by the recorded issues.
\<close>

theorem analyze_propagates_error:
  "(analysis_targets cs = before @ (cname, f) # after \<and>
    run_targets before s [] = Inr (s1, results1) \<and>
    analyze_function_worklist f s1 = Inl e
      \<longrightarrow> analyze cs s = Inl e) \<and>
   (run_targets (analysis_targets cs) s [] = Inr (s', results)
      \<longrightarrow> analyze cs s = Inr (s', results @ map IssueResult (potential_issues s')))"
  by (simp add: analyze_def analyze_contracts_targets run_targets_append)

text \<open>
  The instance for C7: the contract \<open>Pool\<close> with the functions \<open>set\<close> (\<open>t = 5\<close>)
  and \<open>shift\<close> (\<open>z = x << y\<close> with \<open>y\<close> of type \<open>int8\<close>). The first one is
  analysed; in the second one the left shift by the lower bound \<open>-128\<close> of \<open>y\<close>
  raises \<open>ValueError\<close>, and so does \<open>analyze\<close>.
\<close>

theorem analyze_propagates_error_witness:
  "analysis_targets [ex_pool] = [(''Pool'', ex_func)] @ (''Pool'', ex_shift_func) # [] \<and>
   run_targets [(''Pool'', ex_func)] new_analyzer [] =
     Inr (new_analyzer\<lparr>tracked_vars := [(ex_t, int_interval 5 5)],
                        function_summaries := [(0, \<lparr>sum_params = [], sum_returns = []\<rparr>)]\<rparr>, []) \<and>
   analyze_function_worklist ex_shift_func
     (new_analyzer\<lparr>tracked_vars := [(ex_t, int_interval 5 5)],
                   function_summaries := [(0, \<lparr>sum_params = [], sum_returns = []\<rparr>)]\<rparr>)
     = Inl ValueError \<and>
   analyze [ex_pool] new_analyzer = Inl ValueError"
proof -
  let ?s1 = "new_analyzer\<lparr>tracked_vars := [(ex_t, int_interval 5 5)],
                        function_summaries := [(0, \<lparr>sum_params = [], sum_returns = []\<rparr>)]\<rparr>"
  have h1: "analysis_targets [ex_pool] = [(''Pool'', ex_func)] @ (''Pool'', ex_shift_func) # []"
    by (simp add: ex_targets)
  have h2: "run_targets [(''Pool'', ex_func)] new_analyzer [] = Inr (?s1, [])"
    by (simp add: ex_first collect_violations_def check_bounds_violation_def
          deFi_constraints_def lower_def lower_char_def py_ge_def py_le_def
          interval_simps ex_t_def)
  have h3: "analyze_function_worklist ex_shift_func ?s1 = Inl ValueError"
    by (rule ex_second)
  show ?thesis
    using analyze_propagates_error
      [of "[ex_pool]" "[(''Pool'', ex_func)]" "''Pool''" ex_shift_func "[]" new_analyzer ?s1 "[]" ValueError]
      h1 h2 h3
    by blast
qed

text \<open>
  The counterexample for C7 as stated: on the compilation unit with the contract
  \<open>Pool\<close> the entry point raises \<open>ValueError\<close>.
\<close>

theorem analyze_raises_counterexample:
  "analyze [ex_pool] new_analyzer = Inl ValueError"
  by (simp add: analyze_def analyze_contracts_targets ex_targets ex_first ex_second)

end
